theory Spec2Isabelle
  imports Main "HOL-Library.Word" "HOL-Library.Log_Nat"
begin

section \<open>Data model of the Expert class (src/expert.ts, src/types.ts, src/constants.ts)\<close>

subsection \<open>Event kinds (constants.ts)\<close>

definition NOSTR_EVENT_KIND_ASK :: int where
  "NOSTR_EVENT_KIND_ASK = 20174"

definition NOSTR_EVENT_KIND_BID :: int where
  "NOSTR_EVENT_KIND_BID = 20175"

definition NOSTR_EVENT_KIND_BID_PAYLOAD :: int where
  "NOSTR_EVENT_KIND_BID_PAYLOAD = 20176"

definition NOSTR_EVENT_KIND_QUESTION :: int where
  "NOSTR_EVENT_KIND_QUESTION = 20177"

definition NOSTR_EVENT_KIND_ANSWER :: int where
  "NOSTR_EVENT_KIND_ANSWER = 20178"

subsection \<open>Events, filters and the handler-visible values (types.ts)\<close>

text \<open>
  A Uint8Array is a list of bytes. Timestamps, seconds and milliseconds are whole numbers
  within the safe-integer range and are modelled as \<open>int\<close>. Satoshi amounts are
  JavaScript numbers, that is IEEE-754 doubles, as the source multiplies them without any
  integer or range check (see \<open>number\<close> below). An optional field is an \<open>option\<close>.
\<close>

type_synonym bytes = "8 word list"

subsection \<open>JavaScript numbers\<close>

text \<open>
  A double is \<open>Finite m ex\<close>, the value m * 2^ex, or an infinity or NaN. The doubles
  proper have a mantissa below 2^53 in magnitude and an exponent from -1074 to 971; a
  whole number n below 2^53 is \<open>Finite n 0\<close>. The two zeros are not told apart: the
  source only multiplies, compares with 0 and tests truthiness, which do not depend on
  the sign of zero.
\<close>

datatype number = Finite int int | PosInf | NegInf | NaN

text \<open>
  The double nearest to the exact value m * 2^ex, ties to the even mantissa: results keep
  53 bits, no bit below 2^-1074, and a magnitude of 2^1024 or more is an infinity.
\<close>

definition round_double :: "int \<Rightarrow> int \<Rightarrow> number" where
  "round_double m ex =
     (let k = bitlen \<bar>m\<bar>;
          sh = max (k - 53) (- 1074 - ex)
      in if sh \<le> 0
         then (if 0 \<le> ex \<and> 2 ^ 1024 \<le> \<bar>m\<bar> * 2 ^ nat ex
               then (if 0 < m then PosInf else NegInf)
               else Finite m ex)
         else
           let q = \<bar>m\<bar> div 2 ^ nat sh;
               r = \<bar>m\<bar> mod 2 ^ nat sh;
               half = 2 ^ nat (sh - 1);
               q' = (if half < r \<or> (r = half \<and> odd q) then q + 1 else q)
           in if 0 \<le> ex + sh \<and> 2 ^ 1024 \<le> q' * 2 ^ nat (ex + sh)
              then (if 0 < m then PosInf else NegInf)
              else Finite (sgn m * q') (ex + sh))"

fun num_sign :: "number \<Rightarrow> int" where
  "num_sign (Finite m ex) = sgn m"
| "num_sign PosInf = 1"
| "num_sign NegInf = - 1"
| "num_sign NaN = 0"

text \<open>The operator \<open>*\<close> on two numbers.\<close>

fun js_times :: "number \<Rightarrow> number \<Rightarrow> number" where
  "js_times (Finite m1 e1) (Finite m2 e2) = round_double (m1 * m2) (e1 + e2)"
| "js_times NaN b = NaN"
| "js_times a NaN = NaN"
| "js_times a b =
     (let s = num_sign a * num_sign b
      in if s = 0 then NaN else if 0 < s then PosInf else NegInf)"

text \<open>Truthiness of a number, and the comparison \<open>> 0\<close>.\<close>

fun js_truthy :: "number \<Rightarrow> bool" where
  "js_truthy (Finite m ex) = (m \<noteq> 0)"
| "js_truthy PosInf = True"
| "js_truthy NegInf = True"
| "js_truthy NaN = False"

fun js_gt0 :: "number \<Rightarrow> bool" where
  "js_gt0 (Finite m ex) = (0 < m)"
| "js_gt0 PosInf = True"
| "js_gt0 NegInf = False"
| "js_gt0 NaN = False"

text \<open>The value of a finite number, as a rational.\<close>

fun num_val :: "number \<Rightarrow> rat option" where
  "num_val (Finite m ex) = Some (of_int m * 2 powi ex)"
| "num_val PosInf = None"
| "num_val NegInf = None"
| "num_val NaN = None"

record unsigned_event =
  u_kind :: int
  u_created_at :: int
  u_pubkey :: string
  u_content :: string
  u_tags :: "string list list"

record event =
  ev_id :: string
  ev_pubkey :: string
  ev_created_at :: int
  ev_kind :: int
  ev_tags :: "string list list"
  ev_content :: string
  ev_sig :: string

record filter_rec =
  kinds :: "int list"
  since :: "int option"
  tag_t :: "string list option"
  tag_p :: "string list option"
  tag_e :: "string list option"

record ask =
  ask_id :: string
  ask_pubkey :: string
  ask_content :: string
  ask_created_at :: int
  ask_tags :: "string list list"

record bid =
  bid_content :: string
  bid_sats :: number
  bid_tags :: "string list list option"

record question =
  q_id :: string
  q_content :: string
  q_preimage :: string
  q_tags :: "string list list option"

record answer =
  ans_content :: string
  followup_sats :: "number option"
  ans_tags :: "string list list option"

type_synonym qa_pair = "question \<times> answer"

text \<open>The JSON object inside a Question ciphertext, and the one inside an Answer.\<close>

record question_payload =
  qp_content :: string
  qp_tags :: "string list list option"

record answer_payload =
  ap_content :: string
  ap_tags :: "string list list"

text \<open>
  ActiveBid. The subscription and the timer are the handles that
  \<open>pool.subscribeMany\<close> and \<open>setTimeout\<close> returned.
\<close>

record active_bid =
  askEvent :: event
  bidEvent :: event
  bidPayloadEvent :: event
  sessionPubkey :: string
  paymentHash :: string
  timestamp :: int
  subscription :: nat
  timeoutId :: "nat option"
  bid :: bid
  history :: "qa_pair list option"
  contextId :: string

subsection \<open>External collaborators\<close>

text \<open>
  The libraries and services the class calls are parameters of the model: nostr-tools
  (keys, event hash and signature, NIP-44), @noble/hashes, JSON, the NWC wallet client and
  the relay pool's publish. A call that can throw returns \<open>None\<close> when it does.
  \<open>publish\<close> gives the outcome of \<open>Promise.allSettled\<close>: one flag per relay
  promise, \<open>True\<close> for fulfilled.
\<close>

record env =
  getPublicKey :: "bytes \<Rightarrow> string"
  getEventHash :: "unsigned_event \<Rightarrow> string"
  signHash :: "string \<Rightarrow> bytes \<Rightarrow> string"
  getConversationKey :: "bytes \<Rightarrow> string \<Rightarrow> bytes option"
  nip44_encrypt :: "string \<Rightarrow> bytes \<Rightarrow> string option"
  nip44_decrypt :: "string \<Rightarrow> bytes \<Rightarrow> string option"
  stringify_event :: "event \<Rightarrow> string"
  stringify_payload :: "answer_payload \<Rightarrow> string"
  json_parse :: "string \<Rightarrow> question_payload option"
  hexToBytes :: "string \<Rightarrow> bytes option"
  sha256 :: "bytes \<Rightarrow> bytes"
  bytesToHex :: "bytes \<Rightarrow> string"
  makeInvoice :: "number \<Rightarrow> string \<Rightarrow> (string \<times> string) option"
  lookupInvoice :: "string \<Rightarrow> int option option"
  publish :: "string list \<Rightarrow> event \<Rightarrow> bool list"

text \<open>
  \<open>finalizeEvent\<close> of nostr-tools keeps kind, created_at, tags and content, sets the
  pubkey derived from the secret key, and adds the id (the hash of the event) and the
  signature over it.
\<close>

definition finalizeEvent :: "env \<Rightarrow> unsigned_event \<Rightarrow> bytes \<Rightarrow> event" where
  "finalizeEvent e t secretKey =
     (let t' = t\<lparr>u_pubkey := getPublicKey e secretKey\<rparr>;
          h = getEventHash e t'
      in \<lparr>ev_id = h, ev_pubkey = u_pubkey t', ev_created_at = u_created_at t',
          ev_kind = u_kind t', ev_tags = u_tags t', ev_content = u_content t',
          ev_sig = signHash e h secretKey\<rparr>)"

subsection \<open>The Expert object\<close>

text \<open>
  The constructor's parameters (ExpertParams). A handler that throws returns
  \<open>None\<close>; \<open>onAsk\<close> returning no bid is \<open>Some None\<close>.
\<close>

record expert_params =
  p_expertPrivkey :: bytes
  p_askRelays :: "string list"
  p_questionRelays :: "string list"
  p_hashtags :: "string list"
  p_onAsk :: "ask \<Rightarrow> bid option option"
  p_onQuestion :: "ask \<Rightarrow> bid \<Rightarrow> question \<Rightarrow> qa_pair list option \<Rightarrow> answer option"
  p_bidTimeout :: "int option"

text \<open>The fields the constructor sets once and nothing changes afterwards.\<close>

record expert =
  expertPrivkey :: bytes
  expertPubkey :: string
  askRelays :: "string list"
  questionRelays :: "string list"
  hashtags :: "string list"
  onAskCallback :: "ask \<Rightarrow> bid option option"
  onQuestionCallback :: "ask \<Rightarrow> bid \<Rightarrow> question \<Rightarrow> qa_pair list option \<Rightarrow> answer option"
  bidTimeout :: int

definition Expert :: "env \<Rightarrow> expert_params \<Rightarrow> expert" where
  "Expert e p =
     \<lparr>expertPrivkey = p_expertPrivkey p,
      expertPubkey = getPublicKey e (p_expertPrivkey p),
      askRelays = p_askRelays p,
      questionRelays = p_questionRelays p,
      hashtags = p_hashtags p,
      onAskCallback = p_onAsk p,
      onQuestionCallback = p_onQuestion p,
      bidTimeout = (case p_bidTimeout p of None \<Rightarrow> 600 | Some t \<Rightarrow> t)\<rparr>"

subsection \<open>Effects and the mutable state\<close>

text \<open>
  The closure passed as \<open>onevent\<close> to a subscription, and the closure passed to
  \<open>setTimeout\<close>, with the variables each one captures.
\<close>

datatype handler =
    OnAskEvent
  | OnQuestionEvent string nat nat
  | OnFollowupEvent string nat nat nat

datatype callback =
    QuestionTimeout string nat
  | FollowupTimeout string nat

datatype failure =
    UnexpectedKind
  | NoActiveBid
  | WrongContextId
  | DecryptFailed
  | PayloadTypeError
  | NoPreimage
  | HexError
  | PreimageMismatch
  | LookupError
  | NotPaid
  | HandlerThrew
  | MakeInvoiceError
  | EncryptFailed
  | PublishedNowhere

text \<open>
  What the object does to the outside, in the order it does it. A \<open>Publish\<close>
  carries the per-relay outcome that came back.
\<close>

datatype effect =
    Subscribe nat "string list" "filter_rec list" handler
  | CloseSub nat
  | SetTimeout nat int callback
  | ClearTimeout nat
  | Publish "string list" event "bool list"
  | MakeInvoice number string
  | LookupInvoice string
  | CallOnAsk ask
  | CallOnQuestion ask bid question "qa_pair list option"
  | ConsoleError failure

text \<open>
  \<open>activeBids\<close> maps a context id to a reference to its ActiveBid object;
  \<open>objects\<close> is the heap of those objects, as the source mutates them in place and a
  follow-up closure keeps the reference. \<open>fresh\<close> is the next unused handle or
  reference.
\<close>

record expert_state =
  activeBids :: "string \<rightharpoonup> nat"
  objects :: "nat \<Rightarrow> active_bid"
  subscriptions :: "nat list"
  trace :: "effect list"
  fresh :: nat

definition emit :: "effect list \<Rightarrow> expert_state \<Rightarrow> expert_state" where
  "emit es st = st\<lparr>trace := trace st @ es\<rparr>"

definition emitted :: "expert_state \<Rightarrow> expert_state \<Rightarrow> effect list" where
  "emitted st st' = drop (length (trace st)) (trace st')"

section \<open>Operations\<close>

subsection \<open>start\<close>

definition start :: "expert \<Rightarrow> int \<Rightarrow> expert_state \<Rightarrow> expert_state" where
  "start x date_now st =
     (let currentTime = date_now div 1000 - 10;
          hashtagFilter0 = \<lparr>kinds = [NOSTR_EVENT_KIND_ASK], since = Some currentTime,
                            tag_t = None, tag_p = None, tag_e = None\<rparr>;
          hashtagFilter = (if length (hashtags x) > 0
                           then hashtagFilter0\<lparr>tag_t := Some (hashtags x)\<rparr>
                           else hashtagFilter0);
          pubkeyFilter = \<lparr>kinds = [NOSTR_EVENT_KIND_ASK], since = Some currentTime,
                          tag_t = None, tag_p = Some [expertPubkey x], tag_e = None\<rparr>;
          hashtagSub = fresh st;
          pubkeySub = fresh st + 1
      in (emit [Subscribe hashtagSub (askRelays x) [hashtagFilter] OnAskEvent,
                Subscribe pubkeySub (askRelays x) [pubkeyFilter] OnAskEvent] st)
           \<lparr>subscriptions := subscriptions st @ [hashtagSub, pubkeySub],
            fresh := fresh st + 2\<rparr>)"

subsection \<open>The bid pipeline: handleAskEvent and setupQuestionSubscription\<close>

text \<open>
  What a run reads from the outside besides the collaborators' answers: the key that
  \<open>generateSecretKey\<close> returns in this run, and the readings of \<open>Date.now()\<close>,
  numbered in the order the run takes them.
\<close>

record draws =
  secretKey :: bytes
  clock :: "nat \<Rightarrow> int"

definition askOf :: "event \<Rightarrow> ask" where
  "askOf ev = \<lparr>ask_id = ev_id ev, ask_pubkey = ev_pubkey ev, ask_content = ev_content ev,
               ask_created_at = ev_created_at ev, ask_tags = ev_tags ev\<rparr>"

definition successful :: "bool list \<Rightarrow> nat" where
  "successful results = length (filter (\<lambda>fulfilled. fulfilled) results)"

definition setupQuestionSubscription ::
  "expert \<Rightarrow> int \<Rightarrow> event \<Rightarrow> event \<Rightarrow> event \<Rightarrow> string \<Rightarrow> bid \<Rightarrow> expert_state \<Rightarrow> expert_state" where
  "setupQuestionSubscription x date_now askEv bidEv bidPayloadEv payment_hash b st =
     (let flt = \<lparr>kinds = [NOSTR_EVENT_KIND_QUESTION], since = None, tag_t = None,
                 tag_p = None, tag_e = Some [ev_id bidPayloadEv]\<rparr>;
          sub = fresh st;
          tmo = fresh st + 1;
          r = fresh st + 2;
          st1 = emit [Subscribe sub (questionRelays x) [flt]
                        (OnQuestionEvent (ev_id bidPayloadEv) sub tmo),
                      SetTimeout tmo (bidTimeout x * 1000)
                        (QuestionTimeout (ev_id bidPayloadEv) sub)] st
      in st1\<lparr>objects := (objects st1)(r :=
                 \<lparr>askEvent = askEv, bidEvent = bidEv, bidPayloadEvent = bidPayloadEv,
                  sessionPubkey = ev_pubkey askEv, paymentHash = payment_hash,
                  timestamp = date_now div 1000, subscription = sub, timeoutId = Some tmo,
                  bid = b, history = Some [], contextId = ev_id bidPayloadEv\<rparr>),
              activeBids := (activeBids st1)(ev_id bidPayloadEv \<mapsto> r),
              fresh := fresh st1 + 3\<rparr>)"

text \<open>The unsigned Bid Payload event and the unsigned Bid event, as handleAskEvent builds them.\<close>

definition bidPayloadOf :: "expert \<Rightarrow> int \<Rightarrow> bid \<Rightarrow> string \<Rightarrow> unsigned_event" where
  "bidPayloadOf x date_now b invoice =
     \<lparr>u_kind = NOSTR_EVENT_KIND_BID_PAYLOAD,
      u_created_at = date_now div 1000,
      u_pubkey = expertPubkey x,
      u_content = bid_content b,
      u_tags = [''invoice'', invoice] # map (\<lambda>relay. [''relay'', relay]) (questionRelays x)
                 @ (case bid_tags b of None \<Rightarrow> [] | Some ts \<Rightarrow> ts)\<rparr>"

definition encryptBidPayload :: "env \<Rightarrow> bytes \<Rightarrow> event \<Rightarrow> event \<Rightarrow> string option" where
  "encryptBidPayload e bidPrivateKey askEv signedBidPayload =
     (case getConversationKey e bidPrivateKey (ev_pubkey askEv) of
        None \<Rightarrow> None
      | Some conversationKey \<Rightarrow>
          nip44_encrypt e (stringify_event e signedBidPayload) conversationKey)"

definition bidEventOf :: "int \<Rightarrow> string \<Rightarrow> string \<Rightarrow> event \<Rightarrow> unsigned_event" where
  "bidEventOf date_now bidPublicKey encryptedContent askEv =
     \<lparr>u_kind = NOSTR_EVENT_KIND_BID,
      u_created_at = date_now div 1000,
      u_pubkey = bidPublicKey,
      u_content = encryptedContent,
      u_tags = [[''e'', ev_id askEv]]\<rparr>"

definition handleAskEvent :: "env \<Rightarrow> expert \<Rightarrow> draws \<Rightarrow> event \<Rightarrow> expert_state \<Rightarrow> expert_state" where
  "handleAskEvent e x d askEv st =
     (if ev_kind askEv \<noteq> NOSTR_EVENT_KIND_ASK then emit [ConsoleError UnexpectedKind] st
      else
        let st1 = emit [CallOnAsk (askOf askEv)] st in
        case onAskCallback x (askOf askEv) of
          None \<Rightarrow> emit [ConsoleError HandlerThrew] st1
        | Some None \<Rightarrow> st1
        | Some (Some b) \<Rightarrow>
            let bidPrivateKey = secretKey d;
                bidPublicKey = getPublicKey e bidPrivateKey;
                amount = js_times (bid_sats b) (Finite 1000 0);
                description = ''Bid for ask '' @ ev_id askEv;
                st2 = emit [MakeInvoice amount description] st1
            in case makeInvoice e amount description of
                 None \<Rightarrow> emit [ConsoleError MakeInvoiceError] st2
               | Some (invoice, payment_hash) \<Rightarrow>
                   let signedBidPayload =
                         finalizeEvent e (bidPayloadOf x (clock d 0) b invoice) (expertPrivkey x)
                   in case encryptBidPayload e bidPrivateKey askEv signedBidPayload of
                        None \<Rightarrow> emit [ConsoleError EncryptFailed] st2
                      | Some encryptedContent \<Rightarrow>
                          let signedBidEvent =
                                finalizeEvent e
                                  (bidEventOf (clock d 1) bidPublicKey encryptedContent askEv)
                                  bidPrivateKey;
                              results = publish e (askRelays x) signedBidEvent;
                              st3 = emit [Publish (askRelays x) signedBidEvent results] st2
                          in if successful results > 0
                             then setupQuestionSubscription x (clock d 2) askEv signedBidEvent
                                    signedBidPayload payment_hash b st3
                             else emit [ConsoleError PublishedNowhere] st3)"

subsection \<open>The question pipeline: handleQuestionEvent and setupFollowupSubscription\<close>

text \<open>\<open>tag[i]\<close> of a JavaScript array: undefined outside the array.\<close>

definition tag_at :: "string list \<Rightarrow> nat \<Rightarrow> string option" where
  "tag_at tag i = (if i < length tag then Some (tag ! i) else None)"

definition setupFollowupSubscription ::
  "expert \<Rightarrow> string \<Rightarrow> nat \<Rightarrow> expert_state \<Rightarrow> expert_state" where
  "setupFollowupSubscription x answerId r st =
     (let flt = \<lparr>kinds = [NOSTR_EVENT_KIND_QUESTION], since = None, tag_t = None,
                 tag_p = None, tag_e = Some [answerId]\<rparr>;
          sub = fresh st;
          tmo = fresh st + 1;
          st1 = emit [Subscribe sub (questionRelays x) [flt] (OnFollowupEvent answerId r sub tmo),
                      SetTimeout tmo (bidTimeout x * 1000) (FollowupTimeout answerId sub)] st
      in st1\<lparr>objects := (objects st1)(r :=
                 (objects st1 r)\<lparr>subscription := sub, timeoutId := Some tmo,
                                  contextId := answerId\<rparr>),
              activeBids := (activeBids st1)(answerId \<mapsto> r),
              fresh := fresh st1 + 2\<rparr>)"

text \<open>Lines 436-455: the conversation key, the decryption and JSON.parse.\<close>

definition decryptQuestion :: "env \<Rightarrow> expert \<Rightarrow> string \<Rightarrow> string \<Rightarrow> question_payload option" where
  "decryptQuestion e x sessionPk ciphertext =
     (case getConversationKey e (expertPrivkey x) sessionPk of
        None \<Rightarrow> None
      | Some conversationKey \<Rightarrow>
          (case nip44_decrypt e ciphertext conversationKey of
             None \<Rightarrow> None
           | Some decryptedContent \<Rightarrow> json_parse e decryptedContent))"

text \<open>Lines 458-460: the value of the first tag named preimage, if it has one.\<close>

definition extractPreimage :: "string list list \<Rightarrow> string option" where
  "extractPreimage ptags =
     (case find (\<lambda>tag. tag_at tag 0 = Some ''preimage'') ptags of
        None \<Rightarrow> None
      | Some tag \<Rightarrow> tag_at tag 1)"

text \<open>
  Lines 417-476: the checks handleQuestionEvent makes before it contacts the wallet. Each
  failure is a return or a throw of the source, all of them caught and logged.
\<close>

definition validateQuestion ::
  "env \<Rightarrow> expert \<Rightarrow> event \<Rightarrow> active_bid \<Rightarrow> failure + (question_payload \<times> string)" where
  "validateQuestion e x questionEvent activeBid =
     (if ev_kind questionEvent \<noteq> NOSTR_EVENT_KIND_QUESTION then Inl UnexpectedKind
      else
        case find (\<lambda>tag. tag_at tag 0 = Some ''e'') (ev_tags questionEvent) of
          None \<Rightarrow> Inl WrongContextId
        | Some eTag \<Rightarrow>
            if tag_at eTag 1 \<noteq> Some (contextId activeBid) then Inl WrongContextId
            else
              case decryptQuestion e x (sessionPubkey activeBid) (ev_content questionEvent) of
                None \<Rightarrow> Inl DecryptFailed
              | Some questionPayload \<Rightarrow>
                  (case qp_tags questionPayload of
                     None \<Rightarrow> Inl PayloadTypeError
                   | Some ptags \<Rightarrow>
                       (case extractPreimage ptags of
                          None \<Rightarrow> Inl NoPreimage
                        | Some preimage \<Rightarrow>
                            if preimage = [] then Inl NoPreimage
                            else
                              case hexToBytes e preimage of
                                None \<Rightarrow> Inl HexError
                              | Some b \<Rightarrow>
                                  if bytesToHex e (sha256 e b) \<noteq> paymentHash activeBid
                                  then Inl PreimageMismatch
                                  else Inr (questionPayload, preimage))))"

text \<open>Line 489: \<open>!settled_at || settled_at <= 0\<close>.\<close>

definition notSettled :: "int option \<Rightarrow> bool" where
  "notSettled settled_at = (case settled_at of None \<Rightarrow> True | Some t \<Rightarrow> t = 0 \<or> t \<le> 0)"

text \<open>Line 528: \<open>answer.followup_sats && answer.followup_sats > 0\<close>.\<close>

definition wantsFollowup :: "answer \<Rightarrow> number option" where
  "wantsFollowup a =
     (case followup_sats a of
        None \<Rightarrow> None
      | Some n \<Rightarrow> if js_truthy n \<and> js_gt0 n then Some n else None)"

text \<open>
  Lines 540-573: the answer payload, its encryption for the session pubkey, and the signed
  Answer event under the fresh key.
\<close>

definition answerEventOf ::
  "env \<Rightarrow> expert \<Rightarrow> draws \<Rightarrow> event \<Rightarrow> active_bid \<Rightarrow> answer \<Rightarrow> string option \<Rightarrow> event option" where
  "answerEventOf e x d questionEvent activeBid a invoice =
     (let answerPayload =
            \<lparr>ap_content = ans_content a,
             ap_tags = (case ans_tags a of None \<Rightarrow> [] | Some ts \<Rightarrow> ts)
                       @ (case invoice of
                            None \<Rightarrow> []
                          | Some i \<Rightarrow> if i \<noteq> [] then [[''invoice'', i]] else [])\<rparr>
      in case getConversationKey e (expertPrivkey x) (sessionPubkey activeBid) of
           None \<Rightarrow> None
         | Some answerConversationKey \<Rightarrow>
             (case nip44_encrypt e (stringify_payload e answerPayload) answerConversationKey of
                None \<Rightarrow> None
              | Some encryptedAnswerContent \<Rightarrow>
                  let answerPrivateKey = secretKey d;
                      answerPublicKey = getPublicKey e answerPrivateKey
                  in Some (finalizeEvent e
                             \<lparr>u_kind = NOSTR_EVENT_KIND_ANSWER,
                              u_created_at = clock d 0 div 1000,
                              u_pubkey = answerPublicKey,
                              u_content = encryptedAnswerContent,
                              u_tags = [[''e'', ev_id questionEvent]]\<rparr>
                             answerPrivateKey)))"

text \<open>
  handleQuestionEvent, in the three stretches of its body. Lines 540-611: encrypt and sign
  the answer, publish it, push the pair on the history, and arm the follow-up when an
  invoice was minted. \<open>invoiceResponse\<close> holds the two variables \<open>invoice\<close> and
  \<open>paymentHash\<close>, which the source sets together or leaves undefined.
\<close>

definition publishAnswer ::
  "env \<Rightarrow> expert \<Rightarrow> draws \<Rightarrow> event \<Rightarrow> nat \<Rightarrow> question \<Rightarrow> answer \<Rightarrow> (string \<times> string) option
     \<Rightarrow> expert_state \<Rightarrow> expert_state" where
  "publishAnswer e x d questionEvent r q a invoiceResponse st =
     (case answerEventOf e x d questionEvent (objects st r) a (map_option fst invoiceResponse) of
        None \<Rightarrow> emit [ConsoleError EncryptFailed] st
      | Some signedAnswerEvent \<Rightarrow>
          let results = publish e (questionRelays x) signedAnswerEvent;
              st4 = emit [Publish (questionRelays x) signedAnswerEvent results] st;
              st5 = st4\<lparr>objects := (objects st4)(r :=
                      (objects st4 r)\<lparr>history :=
                         Some ((case history (objects st4 r) of None \<Rightarrow> [] | Some h \<Rightarrow> h)
                               @ [(q, a)])\<rparr>)\<rparr>
          in case invoiceResponse of
               None \<Rightarrow> st5
             | Some (invoice, paymentHash') \<Rightarrow>
                 if invoice \<noteq> [] \<and> wantsFollowup a \<noteq> None
                 then setupFollowupSubscription x (ev_id signedAnswerEvent) r
                        (st5\<lparr>objects := (objects st5)(r :=
                           (objects st5 r)\<lparr>paymentHash := paymentHash'\<rparr>)\<rparr>)
                 else st5)"

text \<open>Lines 498-538: the Question value, the call of onQuestion, the follow-up invoice.\<close>

definition answerPaidQuestion ::
  "env \<Rightarrow> expert \<Rightarrow> draws \<Rightarrow> event \<Rightarrow> nat \<Rightarrow> question_payload \<Rightarrow> string
     \<Rightarrow> expert_state \<Rightarrow> expert_state" where
  "answerPaidQuestion e x d questionEvent r questionPayload preimage st =
     (let activeBid = objects st r;
          q = \<lparr>q_id = ev_id questionEvent, q_content = qp_content questionPayload,
               q_preimage = preimage, q_tags = qp_tags questionPayload\<rparr>;
          a0 = askOf (askEvent activeBid);
          st2 = emit [CallOnQuestion a0 (bid activeBid) q (history activeBid)] st
      in case onQuestionCallback x a0 (bid activeBid) q (history activeBid) of
           None \<Rightarrow> emit [ConsoleError HandlerThrew] st2
         | Some a \<Rightarrow>
             (case wantsFollowup a of
                None \<Rightarrow> publishAnswer e x d questionEvent r q a None st2
              | Some n \<Rightarrow>
                  let description = ''Followup question for '' @ contextId activeBid;
                      st3 = emit [MakeInvoice (js_times n (Finite 1000 0)) description] st2
                  in case makeInvoice e (js_times n (Finite 1000 0)) description of
                       None \<Rightarrow> emit [ConsoleError MakeInvoiceError] st3
                     | Some invoiceResponse \<Rightarrow>
                         publishAnswer e x d questionEvent r q a (Some invoiceResponse) st3))"

text \<open>Lines 412-496, and from there the two stretches above.\<close>

definition handleQuestionEvent ::
  "env \<Rightarrow> expert \<Rightarrow> draws \<Rightarrow> event \<Rightarrow> nat \<Rightarrow> expert_state \<Rightarrow> expert_state" where
  "handleQuestionEvent e x d questionEvent r st =
     (let activeBid = objects st r in
      case validateQuestion e x questionEvent activeBid of
        Inl f \<Rightarrow> emit [ConsoleError f] st
      | Inr (questionPayload, preimage) \<Rightarrow>
          let st1 = emit [LookupInvoice (paymentHash activeBid)] st in
          case lookupInvoice e (paymentHash activeBid) of
            None \<Rightarrow> emit [ConsoleError LookupError] st1
          | Some settled_at \<Rightarrow>
              if notSettled settled_at then emit [ConsoleError NotPaid] st1
              else answerPaidQuestion e x d questionEvent r questionPayload preimage st1)"

subsection \<open>The closures: onevent of the two question subscriptions, and the two timers\<close>

text \<open>
  Each onevent closure first runs its synchronous part, up to the call of
  handleQuestionEvent: the result is the ActiveBid reference it goes on with, if any.
\<close>

definition question_onevent_enter ::
  "string \<Rightarrow> nat \<Rightarrow> nat \<Rightarrow> expert_state \<Rightarrow> nat option \<times> expert_state" where
  "question_onevent_enter bidPayloadId sub tmo st =
     (case activeBids st bidPayloadId of
        None \<Rightarrow> (None, emit [ConsoleError NoActiveBid] st)
      | Some activeBid \<Rightarrow>
          (Some activeBid,
           (emit [CloseSub sub, ClearTimeout tmo] st)
             \<lparr>activeBids := (activeBids st)(bidPayloadId := None)\<rparr>))"

definition question_onevent ::
  "env \<Rightarrow> expert \<Rightarrow> draws \<Rightarrow> string \<Rightarrow> nat \<Rightarrow> nat \<Rightarrow> event \<Rightarrow> expert_state \<Rightarrow> expert_state" where
  "question_onevent e x d bidPayloadId sub tmo questionEvent st =
     (case question_onevent_enter bidPayloadId sub tmo st of
        (None, st') \<Rightarrow> st'
      | (Some activeBid, st') \<Rightarrow> handleQuestionEvent e x d questionEvent activeBid st')"

definition followup_onevent_enter ::
  "string \<Rightarrow> nat \<Rightarrow> nat \<Rightarrow> nat \<Rightarrow> expert_state \<Rightarrow> nat option \<times> expert_state" where
  "followup_onevent_enter answerId activeBid sub tmo st =
     (Some activeBid,
      (emit [CloseSub sub, ClearTimeout tmo] st)
        \<lparr>activeBids := (activeBids st)(answerId := None)\<rparr>)"

definition followup_onevent ::
  "env \<Rightarrow> expert \<Rightarrow> draws \<Rightarrow> string \<Rightarrow> nat \<Rightarrow> nat \<Rightarrow> nat \<Rightarrow> event \<Rightarrow> expert_state \<Rightarrow> expert_state" where
  "followup_onevent e x d answerId activeBid sub tmo questionEvent st =
     (case followup_onevent_enter answerId activeBid sub tmo st of
        (None, st') \<Rightarrow> st'
      | (Some r, st') \<Rightarrow> handleQuestionEvent e x d questionEvent r st')"

definition question_timeout :: "string \<Rightarrow> nat \<Rightarrow> expert_state \<Rightarrow> expert_state" where
  "question_timeout bidPayloadId sub st =
     (emit [CloseSub sub] st)\<lparr>activeBids := (activeBids st)(bidPayloadId := None)\<rparr>"

definition followup_timeout :: "string \<Rightarrow> nat \<Rightarrow> expert_state \<Rightarrow> expert_state" where
  "followup_timeout answerId sub st =
     (emit [CloseSub sub] st)\<lparr>activeBids := (activeBids st)(answerId := None)\<rparr>"

text \<open>What the relay pool and the timer queue run when they call a closure back.\<close>

fun deliver :: "env \<Rightarrow> expert \<Rightarrow> draws \<Rightarrow> handler \<Rightarrow> event \<Rightarrow> expert_state \<Rightarrow> expert_state" where
  "deliver e x d OnAskEvent ev st = handleAskEvent e x d ev st"
| "deliver e x d (OnQuestionEvent bidPayloadId sub tmo) ev st =
     question_onevent e x d bidPayloadId sub tmo ev st"
| "deliver e x d (OnFollowupEvent answerId r sub tmo) ev st =
     followup_onevent e x d answerId r sub tmo ev st"

fun fire :: "callback \<Rightarrow> expert_state \<Rightarrow> expert_state" where
  "fire (QuestionTimeout bidPayloadId sub) st = question_timeout bidPayloadId sub st"
| "fire (FollowupTimeout answerId sub) st = followup_timeout answerId sub st"

section \<open>A concrete expert, used to run the model on explicit inputs\<close>

text \<open>
  Stand-ins for the collaborators: small functions in place of the cryptography; a
  plaintext \<open>PP|text\<close> parses to the content \<open>text\<close> with the preimage tag
  \<open>PP\<close>; the preimage \<open>00\<close> hashes to \<open>H1\<close> and \<open>01\<close> to \<open>H2\<close>; the
  wallet mints \<open>lnbc10\<close> with payment hash \<open>H1\<close> for 10000 msat and \<open>lnbc5\<close> with
  \<open>H2\<close> otherwise, and reports every invoice settled at time 123; the relays accept
  every event.
\<close>

definition env0 :: env where
  "env0 =
     \<lparr>getPublicKey = (\<lambda>sk. ''pk'' @ replicate (length sk) CHR ''k''),
      getEventHash = (\<lambda>t. ''id-'' @ u_content t),
      signHash = (\<lambda>h sk. ''sig''),
      getConversationKey = (\<lambda>sk pk. Some sk),
      nip44_encrypt = (\<lambda>s k. Some (''enc:'' @ s)),
      nip44_decrypt = (\<lambda>s k. Some s),
      stringify_event = ev_content,
      stringify_payload = ap_content,
      json_parse = (\<lambda>s. Some \<lparr>qp_content = drop 3 s,
                                qp_tags = Some [[''preimage'', take 2 s]]\<rparr>),
      hexToBytes = (\<lambda>s. if s = ''00'' then Some [0] else if s = ''01'' then Some [1] else None),
      sha256 = (\<lambda>b. b),
      bytesToHex = (\<lambda>b. if b = [0] then ''H1'' else if b = [1] then ''H2'' else ''H3''),
      makeInvoice = (\<lambda>amount description.
         if amount = Finite 10000 0 then Some (''lnbc10'', ''H1'') else Some (''lnbc5'', ''H2'')),
      lookupInvoice = (\<lambda>h. Some (Some 123)),
      publish = (\<lambda>relays ev. map (\<lambda>relay. True) relays)\<rparr>"

text \<open>The same collaborators, with relays that reject every event.\<close>

definition env_reject :: env where
  "env_reject = env0\<lparr>publish := (\<lambda>relays ev. map (\<lambda>relay. False) relays)\<rparr>"

text \<open>
  The handlers: always bid 10 sats; offer a follow-up for 5 sats on the first turn and none
  afterwards.
\<close>

definition params0 :: expert_params where
  "params0 =
     \<lparr>p_expertPrivkey = [1],
      p_askRelays = [''ra''],
      p_questionRelays = [''rq''],
      p_hashtags = [''test''],
      p_onAsk = (\<lambda>a. Some (Some \<lparr>bid_content = ''hi'', bid_sats = Finite 10 0, bid_tags = None\<rparr>)),
      p_onQuestion = (\<lambda>a b q h.
         if h = Some []
         then Some \<lparr>ans_content = ''A1'', followup_sats = Some (Finite 5 0), ans_tags = None\<rparr>
         else Some \<lparr>ans_content = ''A2'', followup_sats = None, ans_tags = None\<rparr>),
      p_bidTimeout = None\<rparr>"

definition x0 :: expert where
  "x0 = Expert env0 params0"

definition d0 :: draws where
  "d0 = \<lparr>secretKey = [2, 2], clock = (\<lambda>n. 5000)\<rparr>"

definition event0 :: event where
  "event0 = \<lparr>ev_id = [], ev_pubkey = [], ev_created_at = 0, ev_kind = 0, ev_tags = [],
             ev_content = [], ev_sig = []\<rparr>"

definition ask0 :: event where
  "ask0 = event0\<lparr>ev_id := ''ask1'', ev_pubkey := ''client'', ev_kind := 20174,
                 ev_tags := [[''t'', ''test'']], ev_content := ''help''\<rparr>"

definition activeBid0 :: active_bid where
  "activeBid0 =
     \<lparr>askEvent = event0, bidEvent = event0, bidPayloadEvent = event0, sessionPubkey = [],
      paymentHash = [], timestamp = 0, subscription = 0, timeoutId = None,
      bid = \<lparr>bid_content = [], bid_sats = Finite 0 0, bid_tags = None\<rparr>, history = None,
      contextId = []\<rparr>"

definition st0 :: expert_state where
  "st0 = \<lparr>activeBids = Map.empty, objects = (\<lambda>r. activeBid0), subscriptions = [],
          trace = [], fresh = 0\<rparr>"

text \<open>
  A question tagging the Bid Payload id, and two tagging the first Answer's id; the first
  carries the preimage of \<open>H1\<close>, the other two the preimage of \<open>H2\<close>.
\<close>

definition question1 :: event where
  "question1 = event0\<lparr>ev_id := ''q1'', ev_pubkey := ''client'', ev_kind := 20177,
                      ev_tags := [[''e'', ''id-hi'']], ev_content := ''00|why''\<rparr>"

definition question2 :: event where
  "question2 = event0\<lparr>ev_id := ''q2'', ev_pubkey := ''client'', ev_kind := 20177,
                      ev_tags := [[''e'', ''id-enc:A1'']], ev_content := ''01|how''\<rparr>"

definition question3 :: event where
  "question3 = event0\<lparr>ev_id := ''q3'', ev_pubkey := ''client'', ev_kind := 20177,
                      ev_tags := [[''e'', ''id-enc:A1'']], ev_content := ''01|again''\<rparr>"

text \<open>The state after the bid for \<open>ask0\<close> was published and its conversation armed.\<close>

definition st_armed :: expert_state where
  "st_armed = handleAskEvent env0 x0 d0 ask0 st0"

text \<open>
  The first question delivered to the armed conversation, with relays that accept the
  answer and with relays that all reject it; then two follow-up questions delivered one
  after the other to the closure of the same follow-up subscription.
\<close>

definition st_turn1 :: expert_state where
  "st_turn1 = deliver env0 x0 d0 (OnQuestionEvent ''id-hi'' 0 1) question1 st_armed"

definition st_turn1_rejected :: expert_state where
  "st_turn1_rejected =
     deliver env_reject x0 d0 (OnQuestionEvent ''id-hi'' 0 1) question1 st_armed"

definition st_turn2 :: expert_state where
  "st_turn2 = deliver env0 x0 d0 (OnFollowupEvent ''id-enc:A1'' 2 3 4) question2 st_turn1"

definition st_turn3 :: expert_state where
  "st_turn3 = deliver env0 x0 d0 (OnFollowupEvent ''id-enc:A1'' 2 3 4) question3 st_turn2"

text \<open>
  The interleaved run: the follow-up closure has run its synchronous part for
  \<open>question2\<close> and handleQuestionEvent is waiting for the wallet, having changed
  nothing yet, when \<open>question3\<close> is delivered to the same closure.
\<close>

definition st_turn2_entered :: expert_state where
  "st_turn2_entered = snd (followup_onevent_enter ''id-enc:A1'' 2 3 4 st_turn1)"

definition st_turn3_early :: expert_state where
  "st_turn3_early =
     deliver env0 x0 d0 (OnFollowupEvent ''id-enc:A1'' 2 3 4) question3 st_turn2_entered"

text \<open>
  An expert whose handler bids 2^53 - 1 sats, and a run in which generateSecretKey returns
  the expert's own long-term key.
\<close>

definition x_big :: expert where
  "x_big = Expert env0
     (params0\<lparr>p_onAsk := (\<lambda>a. Some (Some \<lparr>bid_content = ''hi'',
                                               bid_sats = Finite 9007199254740991 0,
                                               bid_tags = None\<rparr>))\<rparr>)"


section \<open>Basic facts\<close>

subsection \<open>Numbers\<close>

lemma round_double_exact [simp]:
  assumes "\<bar>m\<bar> < 2 ^ 53" "- 1074 \<le> ex" "ex \<le> 971"
  shows "round_double m ex = Finite m ex"
proof -
  from assms(1) have k: "bitlen \<bar>m\<bar> \<le> 53"
    by (simp add: bitlen_le_iff_power)
  with assms(2) have sh: "max (bitlen \<bar>m\<bar> - 53) (- 1074 - ex) \<le> 0"
    by simp
  have "\<not> (0 \<le> ex \<and> 2 ^ 1024 \<le> \<bar>m\<bar> * 2 ^ nat ex)"
  proof
    assume a: "0 \<le> ex \<and> 2 ^ 1024 \<le> \<bar>m\<bar> * 2 ^ nat ex"
    have "\<bar>m\<bar> * 2 ^ nat ex < 2 ^ 53 * 2 ^ nat ex"
      using assms(1) by simp
    also have "\<dots> = (2::int) ^ (53 + nat ex)"
      by (simp add: power_add)
    also have "\<dots> \<le> 2 ^ 1024"
      using assms(3) by (intro power_increasing) auto
    finally show False using a by simp
  qed
  with sh show ?thesis
    unfolding round_double_def Let_def by (simp only: if_True if_False)
qed

lemma js_gt0_truthy: "js_gt0 n \<Longrightarrow> js_truthy n"
  by (cases n) auto

subsection \<open>Unfolding sets and traces\<close>


lemmas kind_defs =
  NOSTR_EVENT_KIND_ASK_def NOSTR_EVENT_KIND_BID_def NOSTR_EVENT_KIND_BID_PAYLOAD_def
  NOSTR_EVENT_KIND_QUESTION_def NOSTR_EVENT_KIND_ANSWER_def

lemmas fixture_defs =
  env0_def env_reject_def params0_def x0_def d0_def event0_def ask0_def activeBid0_def
  st0_def question1_def question2_def question3_def Expert_def

lemmas ask_run_defs =
  handleAskEvent_def setupQuestionSubscription_def bidPayloadOf_def encryptBidPayload_def
  bidEventOf_def finalizeEvent_def askOf_def successful_def emit_def

lemmas question_run_defs =
  question_onevent_def question_onevent_enter_def followup_onevent_def
  followup_onevent_enter_def handleQuestionEvent_def answerPaidQuestion_def publishAnswer_def
  validateQuestion_def decryptQuestion_def extractPreimage_def tag_at_def notSettled_def
  wantsFollowup_def answerEventOf_def finalizeEvent_def setupFollowupSubscription_def
  askOf_def emit_def

lemma trace_emit: "trace (emit es st) = trace st @ es"
  by (simp add: emit_def)

lemma emitted_emit: "emitted st (emit es st) = es"
  by (simp add: emitted_def emit_def)

lemma find_first_match:
  "(\<forall>y \<in> set pre. \<not> P y) \<Longrightarrow> P x \<Longrightarrow> find P (pre @ x # post) = Some x"
  by (induction pre) auto

lemma find_no_match: "(\<forall>y \<in> set xs. \<not> P y) \<Longrightarrow> find P xs = None"
  by (simp add: find_None_iff)

lemma wantsFollowup_Some:
  "wantsFollowup a = Some n \<longleftrightarrow> followup_sats a = Some n \<and> js_gt0 n"
  by (auto simp: wantsFollowup_def js_gt0_truthy split: option.splits)

subsection \<open>The runs of the concrete expert\<close>

lemma st_armed_activeBids: "activeBids st_armed = [''id-hi'' \<mapsto> 2]"
  by (simp add: st_armed_def ask_run_defs fixture_defs kind_defs Let_def numeral_2_eq_2)

lemma st_armed_fresh: "fresh st_armed = 3"
  by (simp add: st_armed_def ask_run_defs fixture_defs kind_defs Let_def)

lemma st_armed_object:
  "objects st_armed 2 =
     \<lparr>askEvent = ask0,
      bidEvent = \<lparr>ev_id = ''id-enc:hi'', ev_pubkey = ''pkkk'', ev_created_at = 5,
                  ev_kind = 20175, ev_tags = [[''e'', ''ask1'']], ev_content = ''enc:hi'',
                  ev_sig = ''sig''\<rparr>,
      bidPayloadEvent = \<lparr>ev_id = ''id-hi'', ev_pubkey = ''pkk'', ev_created_at = 5,
                         ev_kind = 20176,
                         ev_tags = [[''invoice'', ''lnbc10''], [''relay'', ''rq'']],
                         ev_content = ''hi'', ev_sig = ''sig''\<rparr>,
      sessionPubkey = ''client'', paymentHash = ''H1'', timestamp = 5, subscription = 0,
      timeoutId = Some 1,
      bid = \<lparr>bid_content = ''hi'', bid_sats = Finite 10 0, bid_tags = None\<rparr>,
      history = Some [], contextId = ''id-hi''\<rparr>"
  by (simp add: st_armed_def ask_run_defs fixture_defs kind_defs Let_def)


lemma turn1_emitted:
  "emitted st_armed (handleQuestionEvent env0 x0 d0 question1 2 st_armed) =
     [LookupInvoice ''H1'',
      CallOnQuestion (askOf ask0) \<lparr>bid_content = ''hi'', bid_sats = Finite 10 0, bid_tags = None\<rparr>
        \<lparr>q_id = ''q1'', q_content = ''why'', q_preimage = ''00'',
         q_tags = Some [[''preimage'', ''00'']]\<rparr> (Some []),
      MakeInvoice (Finite 5000 0) ''Followup question for id-hi'',
      Publish [''rq'']
        \<lparr>ev_id = ''id-enc:A1'', ev_pubkey = ''pkkk'', ev_created_at = 5, ev_kind = 20178,
         ev_tags = [[''e'', ''q1'']], ev_content = ''enc:A1'', ev_sig = ''sig''\<rparr> [True],
      Subscribe 3 [''rq'']
        [\<lparr>kinds = [20177], since = None, tag_t = None, tag_p = None,
          tag_e = Some [''id-enc:A1'']\<rparr>] (OnFollowupEvent ''id-enc:A1'' 2 3 4),
      SetTimeout 4 600000 (FollowupTimeout ''id-enc:A1'' 3)]"
  by (simp add: question_run_defs st_armed_object st_armed_fresh fixture_defs kind_defs
        Let_def emitted_def)

lemma st_turn1_object:
  "objects st_turn1 2 =
     (objects st_armed 2)
       \<lparr>paymentHash := ''H2'', subscription := 3, timeoutId := Some 4,
        history := Some [(\<lparr>q_id = ''q1'', q_content = ''why'', q_preimage = ''00'',
                            q_tags = Some [[''preimage'', ''00'']]\<rparr>,
                          \<lparr>ans_content = ''A1'', followup_sats = Some (Finite 5 0), ans_tags = None\<rparr>)],
        contextId := ''id-enc:A1''\<rparr>"
  by (simp add: st_turn1_def question_run_defs st_armed_object st_armed_fresh
        st_armed_activeBids fixture_defs kind_defs Let_def)

lemma st_turn1_activeBids: "activeBids st_turn1 = [''id-enc:A1'' \<mapsto> 2]"
  by (simp add: st_turn1_def question_run_defs st_armed_object st_armed_fresh
        st_armed_activeBids fixture_defs kind_defs Let_def)

lemma st_turn1_fresh: "fresh st_turn1 = 5"
  by (simp add: st_turn1_def question_run_defs st_armed_object st_armed_fresh
        st_armed_activeBids fixture_defs kind_defs Let_def)

lemma st_turn2_object:
  "objects st_turn2 2 =
     (objects st_turn1 2)
       \<lparr>history := Some [(\<lparr>q_id = ''q1'', q_content = ''why'', q_preimage = ''00'',
                            q_tags = Some [[''preimage'', ''00'']]\<rparr>,
                          \<lparr>ans_content = ''A1'', followup_sats = Some (Finite 5 0), ans_tags = None\<rparr>),
                         (\<lparr>q_id = ''q2'', q_content = ''how'', q_preimage = ''01'',
                            q_tags = Some [[''preimage'', ''01'']]\<rparr>,
                          \<lparr>ans_content = ''A2'', followup_sats = None, ans_tags = None\<rparr>)]\<rparr>"
  by (simp add: st_turn2_def question_run_defs st_turn1_object st_turn1_fresh
        st_turn1_activeBids st_armed_object fixture_defs kind_defs Let_def)

lemma st_turn2_activeBids: "activeBids st_turn2 = Map.empty"
  by (simp add: st_turn2_def question_run_defs st_turn1_object st_turn1_fresh
        st_turn1_activeBids st_armed_object fixture_defs kind_defs Let_def)

subsection \<open>The outcomes of handleQuestionEvent\<close>

lemma validateQuestion_Inr:
  assumes "validateQuestion e x q ab = Inr (qp, pre)"
  shows "ev_kind q = NOSTR_EVENT_KIND_QUESTION \<and>
         (\<exists>eTag. find (\<lambda>tag. tag_at tag 0 = Some ''e'') (ev_tags q) = Some eTag \<and>
                 tag_at eTag 1 = Some (contextId ab)) \<and>
         decryptQuestion e x (sessionPubkey ab) (ev_content q) = Some qp \<and>
         (\<exists>ptags b. qp_tags qp = Some ptags \<and> extractPreimage ptags = Some pre \<and>
                    pre \<noteq> [] \<and> hexToBytes e pre = Some b \<and>
                    bytesToHex e (sha256 e b) = paymentHash ab)"
  using assms unfolding validateQuestion_def
  by (simp split: if_splits option.splits)

lemma handleQuestionEvent_rejected:
  "validateQuestion e x q (objects st r) = Inl f \<Longrightarrow>
   handleQuestionEvent e x d q r st = emit [ConsoleError f] st"
  by (simp add: handleQuestionEvent_def)

lemma handleQuestionEvent_lookup_failed:
  "validateQuestion e x q (objects st r) = Inr (qp, pre) \<Longrightarrow>
   lookupInvoice e (paymentHash (objects st r)) = None \<Longrightarrow>
   handleQuestionEvent e x d q r st =
     emit [LookupInvoice (paymentHash (objects st r)), ConsoleError LookupError] st"
  by (simp add: handleQuestionEvent_def emit_def)

lemma handleQuestionEvent_not_paid:
  "validateQuestion e x q (objects st r) = Inr (qp, pre) \<Longrightarrow>
   lookupInvoice e (paymentHash (objects st r)) = Some s \<Longrightarrow> notSettled s \<Longrightarrow>
   handleQuestionEvent e x d q r st =
     emit [LookupInvoice (paymentHash (objects st r)), ConsoleError NotPaid] st"
  by (simp add: handleQuestionEvent_def emit_def)

lemma handleQuestionEvent_paid:
  "validateQuestion e x q (objects st r) = Inr (qp, pre) \<Longrightarrow>
   lookupInvoice e (paymentHash (objects st r)) = Some s \<Longrightarrow> \<not> notSettled s \<Longrightarrow>
   handleQuestionEvent e x d q r st =
     answerPaidQuestion e x d q r qp pre (emit [LookupInvoice (paymentHash (objects st r))] st)"
  by (simp add: handleQuestionEvent_def)

lemma trace_setupFollowupSubscription:
  "trace (setupFollowupSubscription x answerId r st) =
     trace st @
       [Subscribe (fresh st) (questionRelays x)
          [\<lparr>kinds = [NOSTR_EVENT_KIND_QUESTION], since = None, tag_t = None, tag_p = None,
            tag_e = Some [answerId]\<rparr>]
          (OnFollowupEvent answerId r (fresh st) (fresh st + 1)),
        SetTimeout (fresh st + 1) (bidTimeout x * 1000) (FollowupTimeout answerId (fresh st))]"
  by (simp add: setupFollowupSubscription_def emit_def Let_def)

lemma publishAnswer_emits:
  "\<exists>es. trace (publishAnswer e x d qe r q a ir st) = trace st @ es \<and>
        (\<forall>amount description. MakeInvoice amount description \<notin> set es) \<and>
        (\<forall>a0 b0 q0 h0. CallOnQuestion a0 b0 q0 h0 \<notin> set es)"
  unfolding publishAnswer_def
  by (simp add: Let_def trace_emit trace_setupFollowupSubscription
           split: option.splits prod.splits)

lemma answerPaidQuestion_emits:
  fixes e x d qe r qp pre st
  defines "ab \<equiv> objects st r"
  defines "q \<equiv> \<lparr>q_id = ev_id qe, q_content = qp_content qp, q_preimage = pre,
                 q_tags = qp_tags qp\<rparr>"
  shows "\<exists>es. trace (answerPaidQuestion e x d qe r qp pre st) =
           trace st @ CallOnQuestion (askOf (askEvent ab)) (bid ab) q (history ab) #
             (case onQuestionCallback x (askOf (askEvent ab)) (bid ab) q (history ab) of
                None \<Rightarrow> []
              | Some a \<Rightarrow>
                  (case wantsFollowup a of
                     None \<Rightarrow> []
                   | Some n \<Rightarrow>
                       [MakeInvoice (js_times n (Finite 1000 0)) (''Followup question for '' @ contextId ab)]))
             @ es \<and>
        (\<forall>amount description. MakeInvoice amount description \<notin> set es) \<and>
        (\<forall>a0 b0 q0 h0. CallOnQuestion a0 b0 q0 h0 \<notin> set es)"
proof (cases "onQuestionCallback x (askOf (askEvent ab)) (bid ab) q (history ab)")
  case None
  then show ?thesis
    unfolding answerPaidQuestion_def ab_def q_def by (simp add: Let_def trace_emit)
next
  case (Some a)
  note cb = this
  show ?thesis
  proof (cases "wantsFollowup a")
    case None
    from publishAnswer_emits [of e x d qe r q a None
        "emit [CallOnQuestion (askOf (askEvent ab)) (bid ab) q (history ab)] st"]
    show ?thesis using cb None
      unfolding answerPaidQuestion_def ab_def q_def by (auto simp: Let_def trace_emit)
  next
    case (Some n)
    note w = this
    show ?thesis
    proof (cases "makeInvoice e (js_times n (Finite 1000 0)) (''Followup question for '' @ contextId ab)")
      case None
      then show ?thesis using cb w
        unfolding answerPaidQuestion_def ab_def q_def by (simp add: Let_def trace_emit)
    next
      case (Some ir)
      from publishAnswer_emits [of e x d qe r q a "Some ir"
        "emit [MakeInvoice (js_times n (Finite 1000 0)) (''Followup question for '' @ contextId ab)]
           (emit [CallOnQuestion (askOf (askEvent ab)) (bid ab) q (history ab)] st)"]
      show ?thesis using Some cb w
        unfolding answerPaidQuestion_def ab_def q_def by (auto simp: Let_def trace_emit)
    qed
  qed
qed

lemma handleQuestionEvent_emits:
  fixes e x d qe r st
  defines "ab \<equiv> objects st r"
  defines "em \<equiv> emitted st (handleQuestionEvent e x d qe r st)"
  obtains
    (Quiet) "\<forall>amount description. MakeInvoice amount description \<notin> set em"
            "\<forall>a0 b0 q0 h0. CallOnQuestion a0 b0 q0 h0 \<notin> set em"
  | (Called) q es where
      "em = LookupInvoice (paymentHash ab) #
            CallOnQuestion (askOf (askEvent ab)) (bid ab) q (history ab) #
            (case onQuestionCallback x (askOf (askEvent ab)) (bid ab) q (history ab) of
               None \<Rightarrow> []
             | Some a \<Rightarrow>
                 (case wantsFollowup a of
                    None \<Rightarrow> []
                  | Some n \<Rightarrow>
                      [MakeInvoice (js_times n (Finite 1000 0)) (''Followup question for '' @ contextId ab)]))
            @ es"
      "\<forall>amount description. MakeInvoice amount description \<notin> set es"
      "\<forall>a0 b0 q0 h0. CallOnQuestion a0 b0 q0 h0 \<notin> set es"
proof (cases "validateQuestion e x qe ab")
  case (Inl f)
  then have "em = [ConsoleError f]"
    unfolding em_def ab_def by (simp add: handleQuestionEvent_rejected emitted_emit)
  then show ?thesis by (intro Quiet) simp_all
next
  case (Inr res)
  obtain qp pre where "res = (qp, pre)" by (cases res)
  with Inr have v: "validateQuestion e x qe (objects st r) = Inr (qp, pre)"
    by (simp add: ab_def)
  show ?thesis
  proof (cases "lookupInvoice e (paymentHash ab)")
    case None
    with v have "em = [LookupInvoice (paymentHash ab), ConsoleError LookupError]"
      unfolding em_def ab_def by (simp add: handleQuestionEvent_lookup_failed emitted_emit)
    then show ?thesis by (intro Quiet) simp_all
  next
    case (Some s)
    show ?thesis
    proof (cases "notSettled s")
      case True
      with v Some have "em = [LookupInvoice (paymentHash ab), ConsoleError NotPaid]"
        unfolding em_def ab_def by (simp add: handleQuestionEvent_not_paid emitted_emit)
      then show ?thesis by (intro Quiet) simp_all
    next
      case False
      let ?st1 = "emit [LookupInvoice (paymentHash ab)] st"
      let ?q = "\<lparr>q_id = ev_id qe, q_content = qp_content qp, q_preimage = pre,
                 q_tags = qp_tags qp\<rparr>"
      from v Some False have h: "handleQuestionEvent e x d qe r st =
          answerPaidQuestion e x d qe r qp pre ?st1"
        unfolding ab_def by (simp add: handleQuestionEvent_paid)
      have o: "objects ?st1 r = ab" by (simp add: emit_def ab_def)
      from answerPaidQuestion_emits [of e x d qe r qp pre ?st1, unfolded o]
      obtain es where
        t: "trace (answerPaidQuestion e x d qe r qp pre ?st1) =
              trace ?st1 @ CallOnQuestion (askOf (askEvent ab)) (bid ab) ?q (history ab) #
                (case onQuestionCallback x (askOf (askEvent ab)) (bid ab) ?q (history ab) of
                   None \<Rightarrow> []
                 | Some a \<Rightarrow>
                     (case wantsFollowup a of
                        None \<Rightarrow> []
                      | Some n \<Rightarrow>
                          [MakeInvoice (js_times n (Finite 1000 0)) (''Followup question for '' @ contextId ab)]))
                @ es" and
        n1: "\<forall>amount description. MakeInvoice amount description \<notin> set es" and
        n2: "\<forall>a0 b0 q0 h0. CallOnQuestion a0 b0 q0 h0 \<notin> set es"
        by blast
      from t h have "em = LookupInvoice (paymentHash ab) #
            CallOnQuestion (askOf (askEvent ab)) (bid ab) ?q (history ab) #
            (case onQuestionCallback x (askOf (askEvent ab)) (bid ab) ?q (history ab) of
               None \<Rightarrow> []
             | Some a \<Rightarrow>
                 (case wantsFollowup a of
                    None \<Rightarrow> []
                  | Some n \<Rightarrow>
                      [MakeInvoice (js_times n (Finite 1000 0)) (''Followup question for '' @ contextId ab)]))
            @ es"
        unfolding em_def by (simp add: emitted_def trace_emit)
      from this n1 n2 show ?thesis by (rule Called)
    qed
  qed
qed

lemma followup_invoice_only_as_offered:
  assumes "MakeInvoice amount description \<in> set (emitted st (handleQuestionEvent e x d qe r st))"
  shows "\<exists>a0 b0 q h a n. CallOnQuestion a0 b0 q h \<in> set (emitted st (handleQuestionEvent e x d qe r st)) \<and>
            onQuestionCallback x a0 b0 q h = Some a \<and> followup_sats a = Some n \<and> js_gt0 n \<and>
            amount = js_times n (Finite 1000 0)"
proof (cases rule: handleQuestionEvent_emits [of st e x d qe r])
  case Quiet
  with assms show ?thesis by simp
next
  case (Called q es)
  let ?ab = "objects st r"
  from assms Called obtain a n where
    "onQuestionCallback x (askOf (askEvent ?ab)) (bid ?ab) q (history ?ab) = Some a"
    "wantsFollowup a = Some n" "amount = js_times n (Finite 1000 0)"
    by (auto split: option.splits)
  moreover have "CallOnQuestion (askOf (askEvent ?ab)) (bid ?ab) q (history ?ab)
      \<in> set (emitted st (handleQuestionEvent e x d qe r st))"
    using Called(1) by simp
  ultimately show ?thesis
    unfolding wantsFollowup_Some by blast
qed

lemma followup_invoice_when_offered:
  assumes "CallOnQuestion a0 b0 q h \<in> set (emitted st (handleQuestionEvent e x d qe r st))"
    "onQuestionCallback x a0 b0 q h = Some a" "followup_sats a = Some n" "js_gt0 n"
  shows "MakeInvoice (js_times n (Finite 1000 0)) (''Followup question for '' @ contextId (objects st r))
           \<in> set (emitted st (handleQuestionEvent e x d qe r st))"
proof (cases rule: handleQuestionEvent_emits [of st e x d qe r])
  case Quiet
  with assms show ?thesis by simp
next
  case (Called q' es)
  let ?ab = "objects st r"
  from assms(1) Called have "a0 = askOf (askEvent ?ab) \<and> b0 = bid ?ab \<and> q = q' \<and> h = history ?ab"
    by (auto split: option.splits)
  with assms(2) have "onQuestionCallback x (askOf (askEvent ?ab)) (bid ?ab) q' (history ?ab) = Some a"
    by simp
  moreover from assms(3,4) have "wantsFollowup a = Some n" by (simp add: wantsFollowup_Some)
  ultimately show ?thesis using Called(1) by simp
qed

lemma handleQuestionEvent_followup:
  fixes e x d questionEvent st r qp pre t a n invoice newHash answerEv
  defines "ab \<equiv> objects st r"
  defines "q \<equiv> \<lparr>q_id = ev_id questionEvent, q_content = qp_content qp, q_preimage = pre,
                 q_tags = qp_tags qp\<rparr>"
  assumes valid: "validateQuestion e x questionEvent ab = Inr (qp, pre)"
      and paid: "lookupInvoice e (paymentHash ab) = Some (Some t)" "0 < t"
      and ans: "onQuestionCallback x (askOf (askEvent ab)) (bid ab) q (history ab) = Some a"
      and offer: "followup_sats a = Some n" "js_gt0 n"
      and mint: "makeInvoice e (js_times n (Finite 1000 0)) (''Followup question for '' @ contextId ab)
                   = Some (invoice, newHash)" "invoice \<noteq> []"
      and built: "answerEventOf e x d questionEvent ab a (Some invoice) = Some answerEv"
  shows "handleQuestionEvent e x d questionEvent r st =
     setupFollowupSubscription x (ev_id answerEv) r
       ((emit [LookupInvoice (paymentHash ab),
               CallOnQuestion (askOf (askEvent ab)) (bid ab) q (history ab),
               MakeInvoice (js_times n (Finite 1000 0)) (''Followup question for '' @ contextId ab),
               Publish (questionRelays x) answerEv (publish e (questionRelays x) answerEv)] st)
          \<lparr>objects := (objects st)(r :=
             ab\<lparr>history := Some ((case history ab of None \<Rightarrow> [] | Some h \<Rightarrow> h) @ [(q, a)]),
                paymentHash := newHash\<rparr>)\<rparr>)"
proof -
  from paid have ns: "\<not> notSettled (Some t)" by (simp add: notSettled_def)
  from offer have w: "wantsFollowup a = Some n" by (simp add: wantsFollowup_Some)
  from valid paid(1) ns have "handleQuestionEvent e x d questionEvent r st =
      answerPaidQuestion e x d questionEvent r qp pre (emit [LookupInvoice (paymentHash ab)] st)"
    unfolding ab_def by (rule handleQuestionEvent_paid)
  also have "\<dots> = publishAnswer e x d questionEvent r q a (Some (invoice, newHash))
      (emit [LookupInvoice (paymentHash ab),
             CallOnQuestion (askOf (askEvent ab)) (bid ab) q (history ab),
             MakeInvoice (js_times n (Finite 1000 0)) (''Followup question for '' @ contextId ab)] st)"
    using ans w mint(1) unfolding answerPaidQuestion_def ab_def q_def
    by (simp add: Let_def emit_def)
  also have "\<dots> = setupFollowupSubscription x (ev_id answerEv) r
       ((emit [LookupInvoice (paymentHash ab),
               CallOnQuestion (askOf (askEvent ab)) (bid ab) q (history ab),
               MakeInvoice (js_times n (Finite 1000 0)) (''Followup question for '' @ contextId ab),
               Publish (questionRelays x) answerEv (publish e (questionRelays x) answerEv)] st)
          \<lparr>objects := (objects st)(r :=
             ab\<lparr>history := Some ((case history ab of None \<Rightarrow> [] | Some h \<Rightarrow> h) @ [(q, a)]),
                paymentHash := newHash\<rparr>)\<rparr>)"
    using built w mint(2) unfolding publishAnswer_def ab_def
    by (simp add: Let_def emit_def)
  finally show ?thesis .
qed

subsection \<open>The outcomes of handleAskEvent\<close>



lemma bid_invoice_only_as_bid:
  assumes "MakeInvoice amount description \<in> set (emitted st (handleAskEvent e x d askEv st))"
  shows "\<exists>b. onAskCallback x (askOf askEv) = Some (Some b) \<and> amount = js_times (bid_sats b) (Finite 1000 0) \<and>
             description = ''Bid for ask '' @ ev_id askEv"
  using assms unfolding handleAskEvent_def
  by (auto simp: Let_def emitted_def emit_def setupQuestionSubscription_def
           split: if_splits option.splits prod.splits)

lemma bid_invoice_when_bid:
  assumes "ev_kind askEv = NOSTR_EVENT_KIND_ASK" "onAskCallback x (askOf askEv) = Some (Some b)"
  shows "MakeInvoice (js_times (bid_sats b) (Finite 1000 0)) (''Bid for ask '' @ ev_id askEv)
           \<in> set (emitted st (handleAskEvent e x d askEv st))"
  using assms unfolding handleAskEvent_def
  by (auto simp: Let_def emitted_def emit_def setupQuestionSubscription_def
           split: if_splits option.splits prod.splits)

subsection \<open>The registry guard of the two onevent closures\<close>

text \<open>
  The closure of the first question subscription looks the conversation up and drops the
  event when the entry is gone; after it went on with an event, the entry is gone.
\<close>

lemma question_onevent_without_entry:
  "activeBids st cid = None \<Longrightarrow>
   deliver e x d (OnQuestionEvent cid sub tmo) ev st = emit [ConsoleError NoActiveBid] st"
  by (simp add: question_onevent_def question_onevent_enter_def)

lemma question_onevent_enter_removes:
  "activeBids (snd (question_onevent_enter cid sub tmo st)) cid = None"
  by (simp add: question_onevent_enter_def emit_def split: option.splits)

lemma question_onevent_second_event_dropped:
  "fst (question_onevent_enter cid sub tmo (snd (question_onevent_enter cid sub tmo st))) = None"
  by (simp add: question_onevent_enter_def emit_def split: option.splits)

text \<open>
  The closure of a follow-up subscription has no such lookup: it goes on with the
  conversation object it captured, in every state.
\<close>

lemma followup_onevent_enter_always:
  "fst (followup_onevent_enter answerId r sub tmo st) = Some r"
  by (simp add: followup_onevent_enter_def)

subsection \<open>The tags of a question event\<close>

text \<open>
  handleQuestionEvent reads the tags of the event only through the search for the first
  tag named e: two events that differ in their tags alone and have the same search result
  are handled alike.
\<close>

lemma validateQuestion_tags_cong:
  "find (\<lambda>tag. tag_at tag 0 = Some ''e'') ts =
     find (\<lambda>tag. tag_at tag 0 = Some ''e'') (ev_tags q) \<Longrightarrow>
   validateQuestion e x (q\<lparr>ev_tags := ts\<rparr>) ab = validateQuestion e x q ab"
  by (simp add: validateQuestion_def cong: option.case_cong if_cong)

lemma answerEventOf_tags:
  "answerEventOf e x d (q\<lparr>ev_tags := ts\<rparr>) ab a invoice = answerEventOf e x d q ab a invoice"
  by (simp add: answerEventOf_def cong: option.case_cong)

lemma publishAnswer_tags:
  "publishAnswer e x d (q\<lparr>ev_tags := ts\<rparr>) r qu a ir st = publishAnswer e x d q r qu a ir st"
  by (simp add: publishAnswer_def answerEventOf_tags)

lemma answerPaidQuestion_tags:
  "answerPaidQuestion e x d (q\<lparr>ev_tags := ts\<rparr>) r qp pre st =
   answerPaidQuestion e x d q r qp pre st"
  by (simp add: answerPaidQuestion_def publishAnswer_tags cong: option.case_cong)

lemma handleQuestionEvent_tags_cong:
  assumes "find (\<lambda>tag. tag_at tag 0 = Some ''e'') ts =
             find (\<lambda>tag. tag_at tag 0 = Some ''e'') (ev_tags q)"
  shows "handleQuestionEvent e x d (q\<lparr>ev_tags := ts\<rparr>) r st =
         handleQuestionEvent e x d q r st"
  unfolding handleQuestionEvent_def validateQuestion_tags_cong [OF assms]
    answerPaidQuestion_tags
  by (rule refl)

lemma handleQuestionEvent_first_e_tag_rejects:
  assumes "(\<forall>tag \<in> set (ev_tags questionEvent). tag_at tag 0 \<noteq> Some ''e'') \<or>
           (\<exists>pre eTag post. ev_tags questionEvent = pre @ eTag # post \<and>
              (\<forall>tag \<in> set pre. tag_at tag 0 \<noteq> Some ''e'') \<and>
              tag_at eTag 0 = Some ''e'' \<and>
              tag_at eTag 1 \<noteq> Some (contextId (objects st r)))"
  shows "handleQuestionEvent e x d questionEvent r st =
           emit [ConsoleError (if ev_kind questionEvent \<noteq> NOSTR_EVENT_KIND_QUESTION
                               then UnexpectedKind else WrongContextId)] st"
proof -
  let ?P = "\<lambda>tag. tag_at tag 0 = Some ''e''"
  from assms have "find ?P (ev_tags questionEvent) = None \<or>
     (\<exists>eTag. find ?P (ev_tags questionEvent) = Some eTag \<and>
        tag_at eTag 1 \<noteq> Some (contextId (objects st r)))"
  proof
    assume "\<forall>tag \<in> set (ev_tags questionEvent). tag_at tag 0 \<noteq> Some ''e''"
    then show ?thesis by (simp add: find_no_match)
  next
    assume "\<exists>pre eTag post. ev_tags questionEvent = pre @ eTag # post \<and>
              (\<forall>tag \<in> set pre. tag_at tag 0 \<noteq> Some ''e'') \<and>
              tag_at eTag 0 = Some ''e'' \<and>
              tag_at eTag 1 \<noteq> Some (contextId (objects st r))"
    then obtain pre eTag post where
      t: "ev_tags questionEvent = pre @ eTag # post" and
      p: "\<forall>tag \<in> set pre. \<not> ?P tag" and
      h: "?P eTag" and
      v: "tag_at eTag 1 \<noteq> Some (contextId (objects st r))"
      by blast
    from p h have "find ?P (pre @ eTag # post) = Some eTag" by (rule find_first_match)
    with t v show ?thesis by simp
  qed
  then have "validateQuestion e x questionEvent (objects st r) =
     Inl (if ev_kind questionEvent \<noteq> NOSTR_EVENT_KIND_QUESTION
          then UnexpectedKind else WrongContextId)"
    by (auto simp: validateQuestion_def)
  then show ?thesis by (simp add: handleQuestionEvent_def)
qed

lemma validateQuestion_first_e_tag_accepts:
  assumes "ev_tags questionEvent = pre @ eTag # post"
      and "\<forall>tag \<in> set pre. tag_at tag 0 \<noteq> Some ''e''"
      and "tag_at eTag 0 = Some ''e''"
      and "tag_at eTag 1 = Some (contextId ab)"
  shows "validateQuestion e x questionEvent ab \<noteq> Inl WrongContextId"
proof -
  from assms(2,3) have "find (\<lambda>tag. tag_at tag 0 = Some ''e'') (pre @ eTag # post) = Some eTag"
    by (intro find_first_match) auto
  with assms(1,4) show ?thesis
    by (auto simp: validateQuestion_def split: option.splits)
qed

section \<open>Properties of the specification, C1 to C10\<close>

text \<open>
  C1. A question turn publishes an Answer, or calls the answer handler at all, only if the
  preimage taken from the decrypted payload hex-decodes to bytes whose SHA-256 is the
  conversation's payment hash, and lookupInvoice on that hash returned a positive
  settled_at. The wallet is asked only after the preimage matched. When either check
  fails, the turn ends with an error log and nothing else: no publication, no change of
  the registry or of the conversation.
\<close>

theorem C1_payment_required:
  fixes e x d questionEvent r st
  defines "ab \<equiv> objects st r"
  defines "em \<equiv> emitted st (handleQuestionEvent e x d questionEvent r st)"
  defines "preimage_ok \<equiv>
     (\<exists>qp ptags pre b.
        decryptQuestion e x (sessionPubkey ab) (ev_content questionEvent) = Some qp \<and>
        qp_tags qp = Some ptags \<and> extractPreimage ptags = Some pre \<and>
        hexToBytes e pre = Some b \<and> bytesToHex e (sha256 e b) = paymentHash ab)"
  defines "settled \<equiv> (\<exists>t. lookupInvoice e (paymentHash ab) = Some (Some t) \<and> 0 < t)"
  shows "((\<exists>relays ev results. Publish relays ev results \<in> set em) \<longrightarrow> preimage_ok \<and> settled) \<and>
         ((\<exists>a b q h. CallOnQuestion a b q h \<in> set em) \<longrightarrow> preimage_ok \<and> settled) \<and>
         ((\<exists>h. LookupInvoice h \<in> set em) \<longrightarrow> preimage_ok) \<and>
         (\<not> (preimage_ok \<and> settled) \<longrightarrow>
            (\<exists>f. handleQuestionEvent e x d questionEvent r st =
                    emit [ConsoleError f] st \<or>
                  handleQuestionEvent e x d questionEvent r st =
                    emit [LookupInvoice (paymentHash ab), ConsoleError f] st))"
proof (cases "validateQuestion e x questionEvent ab")
  case (Inl f)
  then have h: "handleQuestionEvent e x d questionEvent r st = emit [ConsoleError f] st"
    unfolding ab_def by (rule handleQuestionEvent_rejected)
  then have "em = [ConsoleError f]" by (simp add: em_def emitted_emit)
  with h show ?thesis by auto
next
  case (Inr res)
  obtain qp pre where res: "res = (qp, pre)" by (cases res)
  with Inr have v: "validateQuestion e x questionEvent (objects st r) = Inr (qp, pre)"
    by (simp add: ab_def)
  from validateQuestion_Inr [OF v] have pre_ok: preimage_ok
    unfolding preimage_ok_def ab_def by blast
  show ?thesis
  proof (cases "lookupInvoice e (paymentHash ab)")
    case None
    with v have h: "handleQuestionEvent e x d questionEvent r st =
        emit [LookupInvoice (paymentHash ab), ConsoleError LookupError] st"
      unfolding ab_def by (simp add: handleQuestionEvent_lookup_failed)
    then have "em = [LookupInvoice (paymentHash ab), ConsoleError LookupError]"
      by (simp add: em_def emitted_emit)
    with h pre_ok show ?thesis by auto
  next
    case (Some s)
    show ?thesis
    proof (cases "notSettled s")
      case True
      with v Some have h: "handleQuestionEvent e x d questionEvent r st =
          emit [LookupInvoice (paymentHash ab), ConsoleError NotPaid] st"
        unfolding ab_def by (simp add: handleQuestionEvent_not_paid)
      then have "em = [LookupInvoice (paymentHash ab), ConsoleError NotPaid]"
        by (simp add: em_def emitted_emit)
      with h pre_ok show ?thesis by auto
    next
      case False
      with Some have settled
        unfolding settled_def by (auto simp: notSettled_def split: option.splits)
      with pre_ok show ?thesis by simp
    qed
  qed
qed

theorem C1_payment_required_witness:
  "(\<exists>relays ev results. Publish relays ev results
       \<in> set (emitted st_armed (handleQuestionEvent env0 x0 d0 question1 2 st_armed))) \<and>
   (\<exists>qp ptags pre b.
        decryptQuestion env0 x0 (sessionPubkey (objects st_armed 2)) (ev_content question1)
          = Some qp \<and>
        qp_tags qp = Some ptags \<and> extractPreimage ptags = Some pre \<and>
        hexToBytes env0 pre = Some b \<and>
        bytesToHex env0 (sha256 env0 b) = paymentHash (objects st_armed 2)) \<and>
   (\<exists>t. lookupInvoice env0 (paymentHash (objects st_armed 2)) = Some (Some t) \<and> 0 < t)"
proof -
  have p: "\<exists>relays ev results. Publish relays ev results
       \<in> set (emitted st_armed (handleQuestionEvent env0 x0 d0 question1 2 st_armed))"
    unfolding turn1_emitted by (intro exI) simp
  with C1_payment_required [of st_armed env0 x0 d0 question1 2] show ?thesis
    by blast
qed

text \<open>
  C2 fails on the code. The turn below mints a follow-up invoice and publishes the Answer
  to relays that all reject it (zero fulfilled promises); handleQuestionEvent computes the
  count for its log only and arms the follow-up all the same: new subscription and timer,
  the conversation re-inserted under the Answer's id.
\<close>

theorem C2_rearmed_after_publication_nowhere:
  "emitted st_armed st_turn1_rejected =
     [CloseSub 0, ClearTimeout 1, LookupInvoice ''H1'',
      CallOnQuestion (askOf ask0) \<lparr>bid_content = ''hi'', bid_sats = Finite 10 0, bid_tags = None\<rparr>
        \<lparr>q_id = ''q1'', q_content = ''why'', q_preimage = ''00'',
         q_tags = Some [[''preimage'', ''00'']]\<rparr> (Some []),
      MakeInvoice (Finite 5000 0) ''Followup question for id-hi'',
      Publish [''rq'']
        \<lparr>ev_id = ''id-enc:A1'', ev_pubkey = ''pkkk'', ev_created_at = 5, ev_kind = 20178,
         ev_tags = [[''e'', ''q1'']], ev_content = ''enc:A1'', ev_sig = ''sig''\<rparr> [False],
      Subscribe 3 [''rq'']
        [\<lparr>kinds = [20177], since = None, tag_t = None, tag_p = None,
          tag_e = Some [''id-enc:A1'']\<rparr>] (OnFollowupEvent ''id-enc:A1'' 2 3 4),
      SetTimeout 4 600000 (FollowupTimeout ''id-enc:A1'' 3)] \<and>
   successful [False] = 0 \<and>
   activeBids st_turn1_rejected = [''id-enc:A1'' \<mapsto> 2] \<and>
   contextId (objects st_turn1_rejected 2) = ''id-enc:A1'' \<and>
   paymentHash (objects st_turn1_rejected 2) = ''H2'' \<and>
   subscription (objects st_turn1_rejected 2) = 3 \<and>
   timeoutId (objects st_turn1_rejected 2) = Some 4"
  by (simp add: st_turn1_rejected_def question_run_defs st_armed_object st_armed_fresh
        st_armed_activeBids fixture_defs kind_defs Let_def emitted_def successful_def)

text \<open>
  C3, as the code has it. start always opens two subscriptions on the ask relays, both on
  kind 20174 with since = floor(now / 1000) - 10: the first carries the #t constraint when
  the hashtag list is non-empty and no tag constraint at all when it is empty; the second
  carries #p = the expert's public key.
\<close>

theorem C3_start_subscriptions:
  "emitted st (start (Expert e p) date_now st) =
     [Subscribe (fresh st) (p_askRelays p)
        [\<lparr>kinds = [20174], since = Some (date_now div 1000 - 10),
          tag_t = (if p_hashtags p = [] then None else Some (p_hashtags p)),
          tag_p = None, tag_e = None\<rparr>] OnAskEvent,
      Subscribe (fresh st + 1) (p_askRelays p)
        [\<lparr>kinds = [20174], since = Some (date_now div 1000 - 10), tag_t = None,
          tag_p = Some [getPublicKey e (p_expertPrivkey p)], tag_e = None\<rparr>] OnAskEvent]"
  by (simp add: start_def Expert_def emitted_def emit_def Let_def NOSTR_EVENT_KIND_ASK_def)

theorem C3_start_subscriptions_witness:
  "emitted st0 (start (Expert env0 params0) 1000000 st0) =
     [Subscribe 0 [''ra'']
        [\<lparr>kinds = [20174], since = Some 990, tag_t = Some [''test''],
          tag_p = None, tag_e = None\<rparr>] OnAskEvent,
      Subscribe 1 [''ra'']
        [\<lparr>kinds = [20174], since = Some 990, tag_t = None,
          tag_p = Some [''pkk''], tag_e = None\<rparr>] OnAskEvent]"
  using C3_start_subscriptions [of st0 env0 params0 1000000]
  by (simp add: env0_def params0_def st0_def)

text \<open>
  C3, as stated, fails: with an empty hashtag list start still opens the first
  subscription, now without any tag constraint, next to the direct-address one.
\<close>

theorem C3_empty_hashtags_counterexample:
  "p_hashtags (params0\<lparr>p_hashtags := []\<rparr>) = [] \<and>
   emitted st0 (start (Expert env0 (params0\<lparr>p_hashtags := []\<rparr>)) 1000000 st0) =
     [Subscribe 0 [''ra'']
        [\<lparr>kinds = [20174], since = Some 990, tag_t = None, tag_p = None, tag_e = None\<rparr>]
        OnAskEvent,
      Subscribe 1 [''ra'']
        [\<lparr>kinds = [20174], since = Some 990, tag_t = None,
          tag_p = Some [''pkk''], tag_e = None\<rparr>] OnAskEvent]"
  by (simp add: start_def Expert_def emitted_def emit_def Let_def NOSTR_EVENT_KIND_ASK_def
        env0_def params0_def st0_def)

text \<open>
  C4 fails on the closure of a follow-up subscription. The first question of a
  conversation is guarded by the registry lookup (lemmas
  \<open>question_onevent_without_entry\<close> and \<open>question_onevent_second_event_dropped\<close>
  above). The follow-up closure has no lookup (\<open>followup_onevent_enter_always\<close>): below,
  two question events tagging the same Answer id reach it one after the other, the entry
  being gone when the second arrives, and the answer handler is called and an Answer is
  published for each of them, on the one payment of \<open>H2\<close>. The same happens when
  the second event arrives while the first is still being handled.
\<close>

theorem C4_followup_closure_answers_twice:
  "activeBids st_turn1 ''id-enc:A1'' = Some 2 \<and>
   emitted st_turn1 st_turn2 =
     [CloseSub 3, ClearTimeout 4, LookupInvoice ''H2'',
      CallOnQuestion (askOf ask0) \<lparr>bid_content = ''hi'', bid_sats = Finite 10 0, bid_tags = None\<rparr>
        \<lparr>q_id = ''q2'', q_content = ''how'', q_preimage = ''01'',
         q_tags = Some [[''preimage'', ''01'']]\<rparr>
        (Some [(\<lparr>q_id = ''q1'', q_content = ''why'', q_preimage = ''00'',
                  q_tags = Some [[''preimage'', ''00'']]\<rparr>,
                \<lparr>ans_content = ''A1'', followup_sats = Some (Finite 5 0), ans_tags = None\<rparr>)]),
      Publish [''rq'']
        \<lparr>ev_id = ''id-enc:A2'', ev_pubkey = ''pkkk'', ev_created_at = 5, ev_kind = 20178,
         ev_tags = [[''e'', ''q2'']], ev_content = ''enc:A2'', ev_sig = ''sig''\<rparr> [True]] \<and>
   activeBids st_turn2 ''id-enc:A1'' = None \<and>
   emitted st_turn2 st_turn3 =
     [CloseSub 3, ClearTimeout 4, LookupInvoice ''H2'',
      CallOnQuestion (askOf ask0) \<lparr>bid_content = ''hi'', bid_sats = Finite 10 0, bid_tags = None\<rparr>
        \<lparr>q_id = ''q3'', q_content = ''again'', q_preimage = ''01'',
         q_tags = Some [[''preimage'', ''01'']]\<rparr>
        (Some [(\<lparr>q_id = ''q1'', q_content = ''why'', q_preimage = ''00'',
                  q_tags = Some [[''preimage'', ''00'']]\<rparr>,
                \<lparr>ans_content = ''A1'', followup_sats = Some (Finite 5 0), ans_tags = None\<rparr>),
               (\<lparr>q_id = ''q2'', q_content = ''how'', q_preimage = ''01'',
                  q_tags = Some [[''preimage'', ''01'']]\<rparr>,
                \<lparr>ans_content = ''A2'', followup_sats = None, ans_tags = None\<rparr>)]),
      Publish [''rq'']
        \<lparr>ev_id = ''id-enc:A2'', ev_pubkey = ''pkkk'', ev_created_at = 5, ev_kind = 20178,
         ev_tags = [[''e'', ''q3'']], ev_content = ''enc:A2'', ev_sig = ''sig''\<rparr> [True]] \<and>
   activeBids st_turn2_entered ''id-enc:A1'' = None \<and>
   emitted st_turn2_entered st_turn3_early =
     [CloseSub 3, ClearTimeout 4, LookupInvoice ''H2'',
      CallOnQuestion (askOf ask0) \<lparr>bid_content = ''hi'', bid_sats = Finite 10 0, bid_tags = None\<rparr>
        \<lparr>q_id = ''q3'', q_content = ''again'', q_preimage = ''01'',
         q_tags = Some [[''preimage'', ''01'']]\<rparr>
        (Some [(\<lparr>q_id = ''q1'', q_content = ''why'', q_preimage = ''00'',
                  q_tags = Some [[''preimage'', ''00'']]\<rparr>,
                \<lparr>ans_content = ''A1'', followup_sats = Some (Finite 5 0), ans_tags = None\<rparr>)]),
      Publish [''rq'']
        \<lparr>ev_id = ''id-enc:A2'', ev_pubkey = ''pkkk'', ev_created_at = 5, ev_kind = 20178,
         ev_tags = [[''e'', ''q3'']], ev_content = ''enc:A2'', ev_sig = ''sig''\<rparr> [True]]"
proof -
  have entered: "objects st_turn2_entered = objects st_turn1 \<and>
                 activeBids st_turn2_entered = Map.empty"
    by (simp add: st_turn2_entered_def followup_onevent_enter_def emit_def
          st_turn1_activeBids)
  have early: "emitted st_turn2_entered st_turn3_early =
     [CloseSub 3, ClearTimeout 4, LookupInvoice ''H2'',
      CallOnQuestion (askOf ask0) \<lparr>bid_content = ''hi'', bid_sats = Finite 10 0, bid_tags = None\<rparr>
        \<lparr>q_id = ''q3'', q_content = ''again'', q_preimage = ''01'',
         q_tags = Some [[''preimage'', ''01'']]\<rparr>
        (Some [(\<lparr>q_id = ''q1'', q_content = ''why'', q_preimage = ''00'',
                  q_tags = Some [[''preimage'', ''00'']]\<rparr>,
                \<lparr>ans_content = ''A1'', followup_sats = Some (Finite 5 0), ans_tags = None\<rparr>)]),
      Publish [''rq'']
        \<lparr>ev_id = ''id-enc:A2'', ev_pubkey = ''pkkk'', ev_created_at = 5, ev_kind = 20178,
         ev_tags = [[''e'', ''q3'']], ev_content = ''enc:A2'', ev_sig = ''sig''\<rparr> [True]]"
    by (simp add: st_turn3_early_def question_run_defs entered st_turn1_object
          st_armed_object fixture_defs kind_defs Let_def emitted_def)
  have t2: "emitted st_turn1 st_turn2 =
     [CloseSub 3, ClearTimeout 4, LookupInvoice ''H2'',
      CallOnQuestion (askOf ask0) \<lparr>bid_content = ''hi'', bid_sats = Finite 10 0, bid_tags = None\<rparr>
        \<lparr>q_id = ''q2'', q_content = ''how'', q_preimage = ''01'',
         q_tags = Some [[''preimage'', ''01'']]\<rparr>
        (Some [(\<lparr>q_id = ''q1'', q_content = ''why'', q_preimage = ''00'',
                  q_tags = Some [[''preimage'', ''00'']]\<rparr>,
                \<lparr>ans_content = ''A1'', followup_sats = Some (Finite 5 0), ans_tags = None\<rparr>)]),
      Publish [''rq'']
        \<lparr>ev_id = ''id-enc:A2'', ev_pubkey = ''pkkk'', ev_created_at = 5, ev_kind = 20178,
         ev_tags = [[''e'', ''q2'']], ev_content = ''enc:A2'', ev_sig = ''sig''\<rparr> [True]]"
    by (simp add: st_turn2_def question_run_defs st_turn1_object st_turn1_fresh
          st_turn1_activeBids st_armed_object fixture_defs kind_defs Let_def emitted_def)
  have t3: "emitted st_turn2 st_turn3 =
     [CloseSub 3, ClearTimeout 4, LookupInvoice ''H2'',
      CallOnQuestion (askOf ask0) \<lparr>bid_content = ''hi'', bid_sats = Finite 10 0, bid_tags = None\<rparr>
        \<lparr>q_id = ''q3'', q_content = ''again'', q_preimage = ''01'',
         q_tags = Some [[''preimage'', ''01'']]\<rparr>
        (Some [(\<lparr>q_id = ''q1'', q_content = ''why'', q_preimage = ''00'',
                  q_tags = Some [[''preimage'', ''00'']]\<rparr>,
                \<lparr>ans_content = ''A1'', followup_sats = Some (Finite 5 0), ans_tags = None\<rparr>),
               (\<lparr>q_id = ''q2'', q_content = ''how'', q_preimage = ''01'',
                  q_tags = Some [[''preimage'', ''01'']]\<rparr>,
                \<lparr>ans_content = ''A2'', followup_sats = None, ans_tags = None\<rparr>)]),
      Publish [''rq'']
        \<lparr>ev_id = ''id-enc:A2'', ev_pubkey = ''pkkk'', ev_created_at = 5, ev_kind = 20178,
         ev_tags = [[''e'', ''q3'']], ev_content = ''enc:A2'', ev_sig = ''sig''\<rparr> [True]]"
    by (simp add: st_turn3_def question_run_defs st_turn2_object st_turn2_activeBids
          st_turn1_object st_armed_object fixture_defs kind_defs Let_def emitted_def)
  show ?thesis
    by (simp add: t2 t3 early entered st_turn1_activeBids st_turn2_activeBids)
qed

text \<open>
  C5. A question event reaches the closure of a conversation's subscription (first
  question or follow-up); the conversation is registered under its context id; the event
  passes the checks, the invoice is settled, the handler's Answer offers a positive
  followup_sats, the wallet mints a non-empty invoice, and the Answer is published to at
  least one relay. Then the registry is the old one with the old key removed and the
  Answer's id mapped to the same conversation; that conversation has the pair of this turn
  appended to its history, the new payment hash, the new subscription and timer and the
  Answer's id as context id, and its session pubkey and ask are untouched. The Answer's id
  is taken to differ from the previous context id, as ids are hashes of distinct events.
\<close>

theorem C5_followup_chaining:
  fixes e x d questionEvent st cid r sub tmo hdl qp pre t a n invoice newHash answerEv
  defines "ab \<equiv> objects st r"
  defines "q \<equiv> \<lparr>q_id = ev_id questionEvent, q_content = qp_content qp, q_preimage = pre,
                 q_tags = qp_tags qp\<rparr>"
  defines "st' \<equiv> deliver e x d hdl questionEvent st"
  assumes hdl: "hdl = OnQuestionEvent cid sub tmo \<or> hdl = OnFollowupEvent cid r sub tmo"
      and reg: "activeBids st cid = Some r" "contextId ab = cid"
      and valid: "validateQuestion e x questionEvent ab = Inr (qp, pre)"
      and paid: "lookupInvoice e (paymentHash ab) = Some (Some t)" "0 < t"
      and ans: "onQuestionCallback x (askOf (askEvent ab)) (bid ab) q (history ab) = Some a"
      and offer: "followup_sats a = Some n" "js_gt0 n"
      and mint: "makeInvoice e (js_times n (Finite 1000 0)) (''Followup question for '' @ contextId ab)
                   = Some (invoice, newHash)" "invoice \<noteq> []"
      and built: "answerEventOf e x d questionEvent ab a (Some invoice) = Some answerEv"
      and pub: "0 < successful (publish e (questionRelays x) answerEv)"
      and new: "ev_id answerEv \<noteq> cid"
  shows "activeBids st' = ((activeBids st)(cid := None))(ev_id answerEv \<mapsto> r) \<and>
         activeBids st' (ev_id answerEv) = Some r \<and>
         activeBids st' cid = None \<and>
         objects st' = (objects st)(r :=
            ab\<lparr>history := Some ((case history ab of None \<Rightarrow> [] | Some h \<Rightarrow> h) @ [(q, a)]),
               paymentHash := newHash, subscription := fresh st,
               timeoutId := Some (fresh st + 1), contextId := ev_id answerEv\<rparr>) \<and>
         sessionPubkey (objects st' r) = sessionPubkey ab \<and>
         askEvent (objects st' r) = askEvent ab \<and>
         emitted st st' =
           [CloseSub sub, ClearTimeout tmo, LookupInvoice (paymentHash ab),
            CallOnQuestion (askOf (askEvent ab)) (bid ab) q (history ab),
            MakeInvoice (js_times n (Finite 1000 0)) (''Followup question for '' @ contextId ab),
            Publish (questionRelays x) answerEv (publish e (questionRelays x) answerEv),
            Subscribe (fresh st) (questionRelays x)
              [\<lparr>kinds = [20177], since = None, tag_t = None, tag_p = None,
                tag_e = Some [ev_id answerEv]\<rparr>]
              (OnFollowupEvent (ev_id answerEv) r (fresh st) (fresh st + 1)),
            SetTimeout (fresh st + 1) (bidTimeout x * 1000)
              (FollowupTimeout (ev_id answerEv) (fresh st))]"
proof -
  let ?st1 = "(emit [CloseSub sub, ClearTimeout tmo] st)
                \<lparr>activeBids := (activeBids st)(cid := None)\<rparr>"
  have o: "objects ?st1 r = ab" by (simp add: emit_def ab_def)
  from hdl reg(1) have d: "st' = handleQuestionEvent e x d questionEvent r ?st1"
    unfolding st'_def
    by (auto simp: question_onevent_def question_onevent_enter_def followup_onevent_def
          followup_onevent_enter_def)
  note hq = handleQuestionEvent_followup
    [where st = ?st1 and r = r and e = e and x = x and d = d and questionEvent = questionEvent
       and qp = qp and pre = pre and t = t and a = a and n = n and invoice = invoice
       and newHash = newHash and answerEv = answerEv, unfolded o,
     OF valid paid ans [unfolded q_def] offer mint built]
  from d hq have "st' = setupFollowupSubscription x (ev_id answerEv) r
       ((emit [LookupInvoice (paymentHash ab),
               CallOnQuestion (askOf (askEvent ab)) (bid ab) q (history ab),
               MakeInvoice (js_times n (Finite 1000 0)) (''Followup question for '' @ contextId ab),
               Publish (questionRelays x) answerEv (publish e (questionRelays x) answerEv)] ?st1)
          \<lparr>objects := (objects ?st1)(r :=
             ab\<lparr>history := Some ((case history ab of None \<Rightarrow> [] | Some h \<Rightarrow> h) @ [(q, a)]),
                paymentHash := newHash\<rparr>)\<rparr>)"
    by (simp only: q_def)
  then show ?thesis using new
    by (simp add: setupFollowupSubscription_def emit_def emitted_def Let_def
          NOSTR_EVENT_KIND_QUESTION_def fun_upd_twist)
qed

theorem C5_followup_chaining_witness:
  "activeBids st_armed ''id-hi'' = Some 2 \<and>
   0 < successful (publish env0 (questionRelays x0)
         \<lparr>ev_id = ''id-enc:A1'', ev_pubkey = ''pkkk'', ev_created_at = 5, ev_kind = 20178,
          ev_tags = [[''e'', ''q1'']], ev_content = ''enc:A1'', ev_sig = ''sig''\<rparr>) \<and>
   activeBids st_turn1 ''id-enc:A1'' = Some 2 \<and>
   activeBids st_turn1 ''id-hi'' = None \<and>
   objects st_turn1 =
     (objects st_armed)(2 := (objects st_armed 2)
        \<lparr>history :=
           Some ((case history (objects st_armed 2) of None \<Rightarrow> [] | Some h \<Rightarrow> h) @
             [(\<lparr>q_id = ''q1'', q_content = ''why'', q_preimage = ''00'',
                 q_tags = Some [[''preimage'', ''00'']]\<rparr>,
               \<lparr>ans_content = ''A1'', followup_sats = Some (Finite 5 0), ans_tags = None\<rparr>)]),
         paymentHash := ''H2'', subscription := fresh st_armed,
         timeoutId := Some (fresh st_armed + 1), contextId := ''id-enc:A1''\<rparr>) \<and>
   sessionPubkey (objects st_turn1 2) = sessionPubkey (objects st_armed 2)"
proof -
  let ?qp = "\<lparr>qp_content = ''why'', qp_tags = Some [[''preimage'', ''00'']]\<rparr>"
  let ?a = "\<lparr>ans_content = ''A1'', followup_sats = Some (Finite 5 0), ans_tags = None\<rparr>"
  let ?ev = "\<lparr>ev_id = ''id-enc:A1'', ev_pubkey = ''pkkk'', ev_created_at = 5, ev_kind = 20178,
              ev_tags = [[''e'', ''q1'']], ev_content = ''enc:A1'', ev_sig = ''sig''\<rparr>"
  have hdl: "OnQuestionEvent ''id-hi'' 0 1 = OnQuestionEvent ''id-hi'' 0 1 \<or>
             OnQuestionEvent ''id-hi'' 0 1 = OnFollowupEvent ''id-hi'' 2 0 1"
    by simp
  have reg: "activeBids st_armed ''id-hi'' = Some 2"
    by (simp add: st_armed_activeBids)
  have ctx: "contextId (objects st_armed 2) = ''id-hi''"
    by (simp add: st_armed_object)
  have valid: "validateQuestion env0 x0 question1 (objects st_armed 2) = Inr (?qp, ''00'')"
    by (simp add: validateQuestion_def decryptQuestion_def extractPreimage_def tag_at_def
          st_armed_object fixture_defs kind_defs)
  have paid: "lookupInvoice env0 (paymentHash (objects st_armed 2)) = Some (Some 123)"
    by (simp add: env0_def)
  have pos: "(0::int) < 123"
    by simp
  have ans: "onQuestionCallback x0 (askOf (askEvent (objects st_armed 2)))
               (bid (objects st_armed 2))
               \<lparr>q_id = ev_id question1, q_content = qp_content ?qp, q_preimage = ''00'',
                q_tags = qp_tags ?qp\<rparr>
               (history (objects st_armed 2)) = Some ?a"
    by (simp add: st_armed_object fixture_defs)
  have offer: "followup_sats ?a = Some (Finite 5 0)"
    by simp
  have offer_pos: "js_gt0 (Finite 5 0)"
    by simp
  have mint: "makeInvoice env0 (js_times (Finite 5 0) (Finite 1000 0))
                (''Followup question for '' @ contextId (objects st_armed 2))
              = Some (''lnbc5'', ''H2'')"
    by (simp add: env0_def)
  have nonempty: "''lnbc5'' \<noteq> []"
    by simp
  have built: "answerEventOf env0 x0 d0 question1 (objects st_armed 2) ?a (Some ''lnbc5'')
               = Some ?ev"
    by (simp add: answerEventOf_def finalizeEvent_def st_armed_object fixture_defs kind_defs
          Let_def)
  have pub: "0 < successful (publish env0 (questionRelays x0) ?ev)"
    by (simp add: successful_def fixture_defs)
  have new: "ev_id ?ev \<noteq> ''id-hi''"
    by simp
  from C5_followup_chaining [OF hdl reg ctx valid paid pos ans offer offer_pos mint nonempty
      built pub new]
  show ?thesis
    using reg pub unfolding st_turn1_def by (simp add: question1_def event0_def)
qed






text \<open>
  C8. When the timer of a conversation fires, for the first question or for a follow-up,
  the callback closes the subscription it was armed with and removes the entry under its
  context id; it touches no conversation object and publishes nothing.
\<close>

theorem C8_timer_expiry:
  "\<forall>cb \<in> {QuestionTimeout cid sub, FollowupTimeout cid sub}.
     emitted st (fire cb st) = [CloseSub sub] \<and>
     activeBids (fire cb st) = (activeBids st)(cid := None) \<and>
     activeBids (fire cb st) cid = None \<and>
     objects (fire cb st) = objects st \<and>
     (\<forall>relays ev results. Publish relays ev results \<notin> set (emitted st (fire cb st)))"
  by (simp add: question_timeout_def followup_timeout_def emitted_def emit_def)

theorem C8_timer_expiry_witness:
  "activeBids st_armed ''id-hi'' = Some 2 \<and>
   subscription (objects st_armed 2) = 0 \<and>
   emitted st_armed (fire (QuestionTimeout ''id-hi'' 0) st_armed) = [CloseSub 0] \<and>
   activeBids (fire (QuestionTimeout ''id-hi'' 0) st_armed) ''id-hi'' = None"
  using C8_timer_expiry [of "''id-hi''" 0 st_armed]
  by (simp add: st_armed_activeBids st_armed_object)

text \<open>
  C9, as the code has it. The only invoice handleAskEvent requests carries the description
  "Bid for ask " followed by the ask's id and the amount bid_sats * 1000 as JavaScript
  computes it, the double nearest to the product, and it requests it for every bid the
  handler returns. The only invoice handleQuestionEvent requests is for
  followup_sats * 1000, computed the same way, where followup_sats is the amount in the
  Answer the handler returned in this turn, and it requests it exactly when that amount is
  greater than 0. The amount is exactly 1000 times the sats whenever the sats are
  m * 2^ex with m * 1000 below 2^53 in magnitude and ex from -1074 to 971: in
  particular for every whole number of sats with sats * 1000 below 2^53.
\<close>

theorem C9_invoice_amounts:
  "(MakeInvoice amount description \<in> set (emitted st (handleAskEvent e x d askEv st)) \<longrightarrow>
      (\<exists>b. onAskCallback x (askOf askEv) = Some (Some b) \<and>
           amount = js_times (bid_sats b) (Finite 1000 0) \<and>
           description = ''Bid for ask '' @ ev_id askEv)) \<and>
   (ev_kind askEv = NOSTR_EVENT_KIND_ASK \<and> onAskCallback x (askOf askEv) = Some (Some b) \<longrightarrow>
      MakeInvoice (js_times (bid_sats b) (Finite 1000 0)) (''Bid for ask '' @ ev_id askEv)
        \<in> set (emitted st (handleAskEvent e x d askEv st))) \<and>
   (MakeInvoice amount description \<in> set (emitted sq (handleQuestionEvent e x d qe r sq)) \<longrightarrow>
      (\<exists>a0 b0 q h a n.
          CallOnQuestion a0 b0 q h \<in> set (emitted sq (handleQuestionEvent e x d qe r sq)) \<and>
          onQuestionCallback x a0 b0 q h = Some a \<and> followup_sats a = Some n \<and> js_gt0 n \<and>
          amount = js_times n (Finite 1000 0))) \<and>
   (CallOnQuestion hAsk hBid hQuestion hHistory
      \<in> set (emitted sq (handleQuestionEvent e x d qe r sq)) \<and>
    onQuestionCallback x hAsk hBid hQuestion hHistory = Some hAnswer \<and>
    followup_sats hAnswer = Some n \<and> js_gt0 n \<longrightarrow>
      MakeInvoice (js_times n (Finite 1000 0))
          (''Followup question for '' @ contextId (objects sq r))
        \<in> set (emitted sq (handleQuestionEvent e x d qe r sq))) \<and>
   (\<bar>m * 1000\<bar> < 2 ^ 53 \<and> - 1074 \<le> ex \<and> ex \<le> 971 \<longrightarrow>
      js_times (Finite m ex) (Finite 1000 0) = Finite (m * 1000) ex \<and>
      num_val (js_times (Finite m ex) (Finite 1000 0)) =
        map_option (\<lambda>v. v * 1000) (num_val (Finite m ex)))"
proof -
  have exact: "\<bar>m * 1000\<bar> < 2 ^ 53 \<and> - 1074 \<le> ex \<and> ex \<le> 971 \<longrightarrow>
      js_times (Finite m ex) (Finite 1000 0) = Finite (m * 1000) ex \<and>
      num_val (js_times (Finite m ex) (Finite 1000 0)) =
        map_option (\<lambda>v. v * 1000) (num_val (Finite m ex))"
    by (simp add: mult.commute mult.left_commute)
  show ?thesis
    using bid_invoice_only_as_bid [of amount description st e x d askEv]
          bid_invoice_when_bid [of askEv x b st e d]
          followup_invoice_only_as_offered [of amount description sq e x d qe r]
          followup_invoice_when_offered [of hAsk hBid hQuestion hHistory sq e x d qe r hAnswer n]
          exact
    by blast
qed

theorem C9_invoice_amounts_witness:
  "MakeInvoice (Finite 10000 0) ''Bid for ask ask1''
     \<in> set (emitted st0 (handleAskEvent env0 x0 d0 ask0 st0)) \<and>
   MakeInvoice (Finite 5000 0) ''Followup question for id-hi''
     \<in> set (emitted st_armed (handleQuestionEvent env0 x0 d0 question1 2 st_armed)) \<and>
   js_times (Finite 10 0) (Finite 1000 0) = Finite (10 * 1000) 0 \<and>
   num_val (js_times (Finite 10 0) (Finite 1000 0)) =
     map_option (\<lambda>v. v * 1000) (num_val (Finite 10 0))"
proof -
  let ?b = "\<lparr>bid_content = ''hi'', bid_sats = Finite 10 0, bid_tags = None\<rparr>"
  let ?q = "\<lparr>q_id = ''q1'', q_content = ''why'', q_preimage = ''00'',
             q_tags = Some [[''preimage'', ''00'']]\<rparr>"
  let ?a = "\<lparr>ans_content = ''A1'', followup_sats = Some (Finite 5 0), ans_tags = None\<rparr>"
  have bidding: "ev_kind ask0 = NOSTR_EVENT_KIND_ASK \<and>
                 onAskCallback x0 (askOf ask0) = Some (Some ?b)"
    by (simp add: fixture_defs kind_defs)
  have called:
    "CallOnQuestion (askOf ask0) ?b ?q (Some [])
       \<in> set (emitted st_armed (handleQuestionEvent env0 x0 d0 question1 2 st_armed))"
    by (simp add: turn1_emitted)
  have answered:
    "onQuestionCallback x0 (askOf ask0) ?b ?q (Some []) = Some ?a \<and>
     followup_sats ?a = Some (Finite 5 0) \<and> js_gt0 (Finite 5 0)"
    by (simp add: fixture_defs)
  have range: "\<bar>(10::int) * 1000\<bar> < 2 ^ 53 \<and> - 1074 \<le> (0::int) \<and> (0::int) \<le> 971"
    by simp
  note c9 = C9_invoice_amounts [where e = env0 and x = x0 and d = d0 and askEv = ask0
      and st = st0 and b = ?b and sq = st_armed and qe = question1 and r = 2
      and hAsk = "askOf ask0" and hBid = ?b and hQuestion = ?q and hHistory = "Some []"
      and hAnswer = ?a and n = "Finite 5 0" and m = 10 and ex = 0]
  from c9 bidding
  have m1: "MakeInvoice (js_times (bid_sats ?b) (Finite 1000 0)) (''Bid for ask '' @ ev_id ask0)
              \<in> set (emitted st0 (handleAskEvent env0 x0 d0 ask0 st0))"
    by blast
  from c9 called answered
  have m2: "MakeInvoice (js_times (Finite 5 0) (Finite 1000 0))
              (''Followup question for '' @ contextId (objects st_armed 2))
              \<in> set (emitted st_armed (handleQuestionEvent env0 x0 d0 question1 2 st_armed))"
    by blast
  from c9 range
  have m3: "js_times (Finite 10 0) (Finite 1000 0) = Finite (10 * 1000) 0 \<and>
            num_val (js_times (Finite 10 0) (Finite 1000 0)) =
              map_option (\<lambda>v. v * 1000) (num_val (Finite 10 0))"
    by blast
  from m1 m2 have "MakeInvoice (Finite 10000 0) ''Bid for ask ask1''
     \<in> set (emitted st0 (handleAskEvent env0 x0 d0 ask0 st0)) \<and>
   MakeInvoice (Finite 5000 0) ''Followup question for id-hi''
     \<in> set (emitted st_armed (handleQuestionEvent env0 x0 d0 question1 2 st_armed))"
    by (simp add: ask0_def event0_def st_armed_object)
  with m3 show ?thesis by blast
qed

text \<open>
  C9, as stated, fails on large amounts: for a bid of 2^53 - 1 sats the requested amount
  is 8796093022207999 * 2^10 = 9007199254740990976 millisatoshis, the double nearest to
  the product, and not 9007199254740991000.
\<close>

theorem C9_rounded_amount_counterexample:
  "onAskCallback x_big (askOf ask0) =
     Some (Some \<lparr>bid_content = ''hi'', bid_sats = Finite 9007199254740991 0,
                 bid_tags = None\<rparr>) \<and>
   MakeInvoice (Finite 8796093022207999 10) ''Bid for ask ask1''
     \<in> set (emitted st0 (handleAskEvent env0 x_big d0 ask0 st0)) \<and>
   num_val (Finite 9007199254740991 0) = Some 9007199254740991 \<and>
   num_val (Finite 8796093022207999 10) = Some 9007199254740990976 \<and>
   (9007199254740990976 :: rat) \<noteq> 9007199254740991 * 1000"
proof -
  let ?b = "\<lparr>bid_content = ''hi'', bid_sats = Finite 9007199254740991 0, bid_tags = None\<rparr>"
  have cb: "onAskCallback x_big (askOf ask0) = Some (Some ?b)"
    by (simp add: x_big_def fixture_defs)
  have kind: "ev_kind ask0 = NOSTR_EVENT_KIND_ASK"
    by (simp add: fixture_defs kind_defs)
  have rounded: "round_double 9007199254740991000 0 = Finite 8796093022207999 10"
    by code_simp
  from bid_invoice_when_bid [OF kind cb, of st0 env0 d0]
  have "MakeInvoice (Finite 8796093022207999 10) ''Bid for ask ask1''
     \<in> set (emitted st0 (handleAskEvent env0 x_big d0 ask0 st0))"
    by (simp add: rounded ask0_def event0_def)
  with cb show ?thesis
    by (simp add: power_int_def)
qed

text \<open>
  C10. handleQuestionEvent looks at the first tag named e only. When the event has no such
  tag, or the first one has no value or a value other than the conversation's context id,
  the event is discarded with an error log, whatever tags follow it. When the first tag
  named e carries the context id, the context check passes whatever tags follow it. And
  the whole outcome is the same for any other tags around the same first tag named e.
\<close>

theorem C10_first_e_tag_decides:
  "((\<forall>tag \<in> set (ev_tags questionEvent). tag_at tag 0 \<noteq> Some ''e'') \<or>
    (\<exists>pre eTag post. ev_tags questionEvent = pre @ eTag # post \<and>
       (\<forall>tag \<in> set pre. tag_at tag 0 \<noteq> Some ''e'') \<and>
       tag_at eTag 0 = Some ''e'' \<and>
       tag_at eTag 1 \<noteq> Some (contextId (objects st r))) \<longrightarrow>
      handleQuestionEvent e x d questionEvent r st =
        emit [ConsoleError (if ev_kind questionEvent \<noteq> NOSTR_EVENT_KIND_QUESTION
                            then UnexpectedKind else WrongContextId)] st) \<and>
   (ev_tags questionEvent = pre @ eTag # post \<and>
    (\<forall>tag \<in> set pre. tag_at tag 0 \<noteq> Some ''e'') \<and>
    tag_at eTag 0 = Some ''e'' \<and>
    tag_at eTag 1 = Some (contextId (objects st r)) \<longrightarrow>
      validateQuestion e x questionEvent (objects st r) \<noteq> Inl WrongContextId) \<and>
   (ev_tags questionEvent = pre @ eTag # post \<and>
    (\<forall>tag \<in> set pre. tag_at tag 0 \<noteq> Some ''e'') \<and>
    tag_at eTag 0 = Some ''e'' \<and>
    (\<forall>tag \<in> set otherPre. tag_at tag 0 \<noteq> Some ''e'') \<longrightarrow>
      handleQuestionEvent e x d (questionEvent\<lparr>ev_tags := otherPre @ eTag # otherPost\<rparr>) r st =
        handleQuestionEvent e x d questionEvent r st)"
proof (intro conjI impI)
  assume "(\<forall>tag \<in> set (ev_tags questionEvent). tag_at tag 0 \<noteq> Some ''e'') \<or>
    (\<exists>pre eTag post. ev_tags questionEvent = pre @ eTag # post \<and>
       (\<forall>tag \<in> set pre. tag_at tag 0 \<noteq> Some ''e'') \<and>
       tag_at eTag 0 = Some ''e'' \<and>
       tag_at eTag 1 \<noteq> Some (contextId (objects st r)))"
  then show "handleQuestionEvent e x d questionEvent r st =
        emit [ConsoleError (if ev_kind questionEvent \<noteq> NOSTR_EVENT_KIND_QUESTION
                            then UnexpectedKind else WrongContextId)] st"
    by (rule handleQuestionEvent_first_e_tag_rejects)
next
  assume "ev_tags questionEvent = pre @ eTag # post \<and>
    (\<forall>tag \<in> set pre. tag_at tag 0 \<noteq> Some ''e'') \<and>
    tag_at eTag 0 = Some ''e'' \<and>
    tag_at eTag 1 = Some (contextId (objects st r))"
  then show "validateQuestion e x questionEvent (objects st r) \<noteq> Inl WrongContextId"
    using validateQuestion_first_e_tag_accepts [of questionEvent pre eTag post "objects st r" e x]
    by blast
next
  let ?P = "\<lambda>tag. tag_at tag 0 = Some ''e''"
  assume a: "ev_tags questionEvent = pre @ eTag # post \<and>
    (\<forall>tag \<in> set pre. tag_at tag 0 \<noteq> Some ''e'') \<and>
    tag_at eTag 0 = Some ''e'' \<and>
    (\<forall>tag \<in> set otherPre. tag_at tag 0 \<noteq> Some ''e'')"
  then have "find ?P (pre @ eTag # post) = Some eTag"
    by (intro find_first_match) auto
  moreover from a have "find ?P (otherPre @ eTag # otherPost) = Some eTag"
    by (intro find_first_match) auto
  ultimately have "find ?P (otherPre @ eTag # otherPost) = find ?P (ev_tags questionEvent)"
    using a by simp
  then show "handleQuestionEvent e x d
        (questionEvent\<lparr>ev_tags := otherPre @ eTag # otherPost\<rparr>) r st =
      handleQuestionEvent e x d questionEvent r st"
    by (rule handleQuestionEvent_tags_cong)
qed

theorem C10_first_e_tag_decides_witness:
  "contextId (objects st_armed 2) = ''id-hi'' \<and>
   handleQuestionEvent env0 x0 d0
     (question1\<lparr>ev_tags := [[''p'', ''z''], [''e'', ''other''], [''e'', ''id-hi'']]\<rparr>)
     2 st_armed = emit [ConsoleError WrongContextId] st_armed \<and>
   validateQuestion env0 x0
     (question1\<lparr>ev_tags := [[''p'', ''z''], [''e'', ''id-hi''], [''e'', ''other'']]\<rparr>)
     (objects st_armed 2) \<noteq> Inl WrongContextId \<and>
   handleQuestionEvent env0 x0 d0
     (question1\<lparr>ev_tags := [[''p'', ''z''], [''e'', ''id-hi''], [''e'', ''other'']]\<rparr>)
     2 st_armed = handleQuestionEvent env0 x0 d0 question1 2 st_armed"
proof -
  let ?rej = "question1\<lparr>ev_tags := [[''p'', ''z''], [''e'', ''other''], [''e'', ''id-hi'']]\<rparr>"
  let ?acc = "question1\<lparr>ev_tags := [[''p'', ''z''], [''e'', ''id-hi''], [''e'', ''other'']]\<rparr>"
  have ctx: "contextId (objects st_armed 2) = ''id-hi''"
    by (simp add: st_armed_object)
  have "ev_tags ?rej = [[''p'', ''z'']] @ [''e'', ''other''] # [[''e'', ''id-hi'']] \<and>
        (\<forall>tag \<in> set [[''p'', ''z'']]. tag_at tag 0 \<noteq> Some ''e'') \<and>
        tag_at [''e'', ''other''] 0 = Some ''e'' \<and>
        tag_at [''e'', ''other''] 1 \<noteq> Some (contextId (objects st_armed 2))"
    by (simp add: question1_def event0_def tag_at_def st_armed_object)
  then have rej: "(\<forall>tag \<in> set (ev_tags ?rej). tag_at tag 0 \<noteq> Some ''e'') \<or>
           (\<exists>pre eTag post. ev_tags ?rej = pre @ eTag # post \<and>
              (\<forall>tag \<in> set pre. tag_at tag 0 \<noteq> Some ''e'') \<and>
              tag_at eTag 0 = Some ''e'' \<and>
              tag_at eTag 1 \<noteq> Some (contextId (objects st_armed 2)))"
    by blast
  from C10_first_e_tag_decides [where questionEvent = ?rej and st = st_armed and r = 2
      and e = env0 and x = x0 and d = d0] rej
  have r1: "handleQuestionEvent env0 x0 d0 ?rej 2 st_armed =
      emit [ConsoleError (if ev_kind ?rej \<noteq> NOSTR_EVENT_KIND_QUESTION
                          then UnexpectedKind else WrongContextId)] st_armed"
    by blast
  have acc: "ev_tags ?acc = [[''p'', ''z'']] @ [''e'', ''id-hi''] # [[''e'', ''other'']] \<and>
        (\<forall>tag \<in> set [[''p'', ''z'']]. tag_at tag 0 \<noteq> Some ''e'') \<and>
        tag_at [''e'', ''id-hi''] 0 = Some ''e'' \<and>
        tag_at [''e'', ''id-hi''] 1 = Some (contextId (objects st_armed 2))"
    by (simp add: question1_def event0_def tag_at_def st_armed_object)
  from C10_first_e_tag_decides [where questionEvent = ?acc and st = st_armed and r = 2
      and e = env0 and x = x0 and d = d0 and pre = "[[''p'', ''z'']]"
      and eTag = "[''e'', ''id-hi'']" and post = "[[''e'', ''other'']]"] acc
  have r2: "validateQuestion env0 x0 ?acc (objects st_armed 2) \<noteq> Inl WrongContextId"
    by blast
  have one: "ev_tags question1 = [] @ [''e'', ''id-hi''] # [] \<and>
        (\<forall>tag \<in> set []. tag_at tag 0 \<noteq> Some ''e'') \<and>
        tag_at [''e'', ''id-hi''] 0 = Some ''e'' \<and>
        (\<forall>tag \<in> set [[''p'', ''z'']]. tag_at tag 0 \<noteq> Some ''e'')"
    by (simp add: question1_def event0_def tag_at_def)
  from C10_first_e_tag_decides [where questionEvent = question1 and st = st_armed and r = 2
      and e = env0 and x = x0 and d = d0 and pre = "[]"
      and eTag = "[''e'', ''id-hi'']" and post = "[]" and otherPre = "[[''p'', ''z'']]"
      and otherPost = "[[''e'', ''other'']]"] one
  have r3: "handleQuestionEvent env0 x0 d0
        (question1\<lparr>ev_tags := [[''p'', ''z'']] @ [''e'', ''id-hi''] # [[''e'', ''other'']]\<rparr>)
        2 st_armed = handleQuestionEvent env0 x0 d0 question1 2 st_armed"
    by blast
  from ctx r1 r2 r3 show ?thesis
    by (simp add: question1_def event0_def NOSTR_EVENT_KIND_QUESTION_def)
qed

end
